theory Spec2Isabelle
  imports Complex_Main
begin

section \<open>Values on the wire\<close>

text \<open>
  Every relay variant (\<^verbatim>\<open>satellite_node_parallel.py\<close>, \<^verbatim>\<open>satellite_node_channelchar.py\<close>,
  \<^verbatim>\<open>satellite_node_scalable.py\<close>, \<^verbatim>\<open>satellite_node_sp.py\<close>) receives a datagram, runs
  \<^verbatim>\<open>json.loads\<close> on it and works on the resulting Python value. That value is modelled
  by the datatype below; an object is an association list read with \<open>map_of\<close>. A JSON
  number with a fraction or exponent is a \<open>JFloat\<close>, taken as a real number. Values used as
  dictionary keys are compared structurally (Python's identification of \<^verbatim>\<open>1\<close>, \<^verbatim>\<open>1.0\<close>
  and \<^verbatim>\<open>True\<close> as one key is left out; ids, sources and destinations are strings on
  every path the vehicles and relays of this repository produce).
  Whatever the code serialises with \<^verbatim>\<open>json.dumps\<close> before sending is represented by the value
  that is serialised, and the byte length of the serialisation is a parameter of the
  environment (\<open>wire_size\<close>).
\<close>

datatype json =
    JNull
  | JBool bool
  | JInt int
  | JFloat real
  | JStr string
  | JList "json list"
  | JObj "(string \<times> json) list"

datatype py_error =
  KeyError | TypeError | AttributeError | ValueError | OverflowError | OSError | IndexError

text \<open>\<^verbatim>\<open>value[key]\<close> for a string key: only a dict answers, a missing key raises.\<close>

fun getitem :: "json \<Rightarrow> string \<Rightarrow> py_error + json" where
  "getitem (JObj kvs) k = (case map_of kvs k of None \<Rightarrow> Inl KeyError | Some v \<Rightarrow> Inr v)"
| "getitem _ k = Inl TypeError"

text \<open>\<^verbatim>\<open>dict.get(key, default)\<close>; anything that is not a dict has no \<^verbatim>\<open>get\<close>.\<close>

fun get_default :: "json \<Rightarrow> string \<Rightarrow> json \<Rightarrow> py_error + json" where
  "get_default (JObj kvs) k d = (case map_of kvs k of None \<Rightarrow> Inr d | Some v \<Rightarrow> Inr v)"
| "get_default _ k d = Inl AttributeError"

fun starts_with :: "string \<Rightarrow> string \<Rightarrow> bool" where
  "starts_with [] ys = True"
| "starts_with (x # xs) [] = False"
| "starts_with (x # xs) (y # ys) = (x = y \<and> starts_with xs ys)"

fun is_substring :: "string \<Rightarrow> string \<Rightarrow> bool" where
  "is_substring xs [] = (xs = [])"
| "is_substring xs (y # ys) = (starts_with xs (y # ys) \<or> is_substring xs ys)"

text \<open>
  \<^verbatim>\<open>key in value\<close> for a string key: key membership in a dict, element membership in a
  list, substring test in a string, \<^verbatim>\<open>TypeError\<close> for anything that is not iterable.
\<close>

fun contains :: "string \<Rightarrow> json \<Rightarrow> py_error + bool" where
  "contains k (JObj kvs) = Inr (map_of kvs k \<noteq> None)"
| "contains k (JList xs) = Inr (JStr k \<in> set xs)"
| "contains k (JStr s) = Inr (is_substring k s)"
| "contains k _ = Inl TypeError"

text \<open>Lists and dicts cannot be dictionary keys (\<^verbatim>\<open>TypeError: unhashable type\<close>).\<close>

fun hashable :: "json \<Rightarrow> bool" where
  "hashable (JList xs) = False"
| "hashable (JObj kvs) = False"
| "hashable _ = True"

section \<open>State of a relay process and its environment\<close>

text \<open>
  A routing entry is the inner dict of \<^verbatim>\<open>ROUTING_TABLE\<close>; each of its three keys may be
  missing. The address and the next-hop name are always strings in the code; the port of a
  learned entry is whatever the announcement carried.
\<close>

record route_entry =
  next_hop :: "string option"
  ip :: "string option"
  port :: "json option"

record neighbor =
  nid :: string
  nip :: string
  nport :: int

text \<open>
  What a process does to the outside world is kept as a chronological trace: every
  \<^verbatim>\<open>time.sleep(d)\<close> and every \<^verbatim>\<open>sock.sendto(data, (ip, port))\<close> together with whether
  the call returned (\<open>True\<close>) or raised (\<open>False\<close>).
\<close>

datatype event =
    Sleep real
  | SendTo json string json bool

text \<open>
  The module-level globals of the relay. The variants declare the same globals
  (\<^verbatim>\<open>ROUTING_TABLE\<close>, \<^verbatim>\<open>recent_messages\<close>, \<^verbatim>\<open>message_queue\<close>, the \<^verbatim>\<open>metrics\<close>
  counters); one record holds their union, and a variant leaves alone the fields it does
  not have. The last five fields are bookkeeping of the model: the trace, how many times
  the transport, the clock and the random generator have been consulted, and how many
  times \<^verbatim>\<open>connection_queue.task_done()\<close> has been called.
\<close>

record node =
  ROUTING_TABLE :: "json \<rightharpoonup> route_entry"
  recent_messages :: "json \<rightharpoonup> real"
  message_queue :: "(json \<times> json) list"
  total_packets_received :: nat
  total_packets_forwarded :: nat
  total_packets_dropped :: nat
  total_acks_sent :: nat
  average_processing_time :: real
  duplicate_messages :: nat
  shortest_path_updates :: nat
  trace :: "event list"
  n_sends :: nat
  n_clock :: nat
  n_rand :: nat
  tasks_done :: nat

text \<open>
  The environment answers what the process cannot decide: the reading of the clock at its
  \<open>n\<close>-th consultation (\<^verbatim>\<open>time.time()\<close>, as a real number of seconds), whether the
  operating system accepts the \<open>n\<close>-th \<^verbatim>\<open>sendto\<close>, the outcome of the \<open>n\<close>-th
  \<^verbatim>\<open>simulate_packet_loss()\<close> draw, the length in bytes of a serialised message, the
  two time-derived strings \<^verbatim>\<open>create_message\<close> puts into a message, and the name
  \<^verbatim>\<open>f"satellite_{SATELLITE_PORT}"\<close> of the process.
\<close>

record env =
  clock :: "nat \<Rightarrow> real"
  transport_ok :: "nat \<Rightarrow> bool"
  packet_lost :: "nat \<Rightarrow> bool"
  wire_size :: "json \<Rightarrow> nat"
  stamp :: "nat \<Rightarrow> string \<times> string"
  satellite_name :: string

text \<open>
  A piece of Python code is a function from the state to an outcome and the state it
  leaves behind: \<open>Inl e\<close> when exception \<open>e\<close> escapes, \<open>Inr v\<close> when it returns \<open>v\<close>.
  What was mutated before an exception stays mutated.
\<close>

type_synonym 'a prog = "node \<Rightarrow> (py_error + 'a) \<times> node"

definition retP :: "'a \<Rightarrow> 'a prog" where
  "retP v s = (Inr v, s)"

definition raiseP :: "py_error \<Rightarrow> 'a prog" where
  "raiseP e s = (Inl e, s)"

definition liftP :: "py_error + 'a \<Rightarrow> 'a prog" where
  "liftP r s = (r, s)"

definition bindP :: "'a prog \<Rightarrow> ('a \<Rightarrow> 'b prog) \<Rightarrow> 'b prog" where
  "bindP m f s = (case m s of (Inl e, s') \<Rightarrow> (Inl e, s') | (Inr v, s') \<Rightarrow> f v s')"

text \<open>\<^verbatim>\<open>try: m  except Exception as e: h(e)\<close>\<close>

definition tryP :: "'a prog \<Rightarrow> (py_error \<Rightarrow> 'a prog) \<Rightarrow> 'a prog" where
  "tryP m h s = (case m s of (Inl e, s') \<Rightarrow> h e s' | (Inr v, s') \<Rightarrow> (Inr v, s'))"

definition time_time :: "env \<Rightarrow> real prog" where
  "time_time E s = (Inr (clock E (n_clock s)), s\<lparr>n_clock := n_clock s + 1\<rparr>)"

definition sleep :: "real \<Rightarrow> unit prog" where
  "sleep d s = (Inr (), s\<lparr>trace := trace s @ [Sleep d]\<rparr>)"

text \<open>
  \<^verbatim>\<open>sock.sendto(data, (ip, port))\<close>. The port has to be an integer in range; otherwise the
  call raises before anything reaches the transport. A well-formed call succeeds when the
  environment says so.
\<close>

fun port_error :: "json \<Rightarrow> py_error option" where
  "port_error (JInt p) = (if 0 \<le> p \<and> p \<le> 65535 then None else Some OverflowError)"
| "port_error (JBool b) = None"
| "port_error _ = Some TypeError"

definition sendto :: "env \<Rightarrow> json \<Rightarrow> string \<Rightarrow> json \<Rightarrow> unit prog" where
  "sendto E data_v ip_v port_v s =
     (let outcome = (case port_error port_v of
                       Some e \<Rightarrow> Inl e
                     | None \<Rightarrow> if transport_ok E (n_sends s) then Inr () else Inl OSError)
      in (outcome,
          s\<lparr>trace := trace s @ [SendTo data_v ip_v port_v (outcome = Inr ())],
            n_sends := n_sends s + 1\<rparr>))"

section \<open>Configuration\<close>

definition COMMAND_STATION_IP :: string where
  "COMMAND_STATION_IP = ''10.35.70.19''"

definition COMMAND_STATION_PORT :: int where
  "COMMAND_STATION_PORT = 33500"

definition ACK_LISTEN_PORT :: int where
  "ACK_LISTEN_PORT = 33020"

definition ISL_DELAY :: real where
  "ISL_DELAY = 2 / 10"

definition BANDWIDTH_LIMIT :: real where
  "BANDWIDTH_LIMIT = 5000"

definition MAX_RETRIES :: nat where
  "MAX_RETRIES = 3"

section \<open>Deduplication store\<close>

text \<open>
  \<^verbatim>\<open>is_duplicate\<close> of \<^verbatim>\<open>satellite_node_parallel.py\<close>, \<^verbatim>\<open>satellite_node_channelchar.py\<close>
  and \<^verbatim>\<open>satellite_node_scalable.py\<close> (the three bodies are the same text). The clock is read
  first; the membership test raises for an unhashable id; an expired record is deleted and
  then written again.
\<close>

definition is_duplicate :: "env \<Rightarrow> json \<Rightarrow> bool prog" where
  "is_duplicate E message_id =
     bindP (time_time E) (\<lambda>current_time s.
       if \<not> hashable message_id then (Inl TypeError, s)
       else (case recent_messages s message_id of
               Some first_seen \<Rightarrow>
                 if current_time - first_seen < 10 then (Inr True, s)
                 else (Inr False,
                       s\<lparr>recent_messages :=
                           ((recent_messages s) |` (- {message_id}))(message_id \<mapsto> current_time)\<rparr>)
             | None \<Rightarrow>
                 (Inr False,
                  s\<lparr>recent_messages := (recent_messages s)(message_id \<mapsto> current_time)\<rparr>)))"

text \<open>
  \<^verbatim>\<open>is_duplicate\<close> of \<^verbatim>\<open>satellite_node_sp.py\<close>: the same, and a suppressed id is counted.
\<close>

definition is_duplicate_sp :: "env \<Rightarrow> json \<Rightarrow> bool prog" where
  "is_duplicate_sp E message_id =
     bindP (time_time E) (\<lambda>current_time s.
       if \<not> hashable message_id then (Inl TypeError, s)
       else (case recent_messages s message_id of
               Some first_seen \<Rightarrow>
                 if current_time - first_seen < 10
                 then (Inr True, s\<lparr>duplicate_messages := duplicate_messages s + 1\<rparr>)
                 else (Inr False,
                       s\<lparr>recent_messages :=
                           ((recent_messages s) |` (- {message_id}))(message_id \<mapsto> current_time)\<rparr>)
             | None \<Rightarrow>
                 (Inr False,
                  s\<lparr>recent_messages := (recent_messages s)(message_id \<mapsto> current_time)\<rparr>)))"

section \<open>Helpers shared by the variants\<close>

text \<open>
  \<^verbatim>\<open>create_message\<close>, before serialisation. The relay only calls it with its own name as
  source; the timestamp and the nanosecond counter in the id come from the environment.
\<close>

definition create_message :: "env \<Rightarrow> string \<Rightarrow> string \<Rightarrow> json \<Rightarrow> json \<Rightarrow> json prog" where
  "create_message E msg_type source destination payload s =
     (Inr (JObj [(''type'', JStr msg_type),
                 (''source'', JStr source),
                 (''destination'', destination),
                 (''payload'', payload),
                 (''timestamp'', JStr (fst (stamp E (n_clock s)))),
                 (''id'', JStr (source @ ''-'' @ snd (stamp E (n_clock s))))]),
      s\<lparr>n_clock := n_clock s + 1\<rparr>)"

definition simulate_packet_loss :: "env \<Rightarrow> bool prog" where
  "simulate_packet_loss E s = (Inr (packet_lost E (n_rand s)), s\<lparr>n_rand := n_rand s + 1\<rparr>)"

definition simulate_bandwidth :: "env \<Rightarrow> json \<Rightarrow> unit prog" where
  "simulate_bandwidth E data_v = sleep (real (wire_size E data_v) / BANDWIDTH_LIMIT)"

definition ack_payload :: json where
  "ack_payload = JObj [(''status'', JStr ''received'')]"

section \<open>The short-path relay (\<^verbatim>\<open>satellite_node_sp.py\<close>)\<close>

definition hop :: "string \<Rightarrow> route_entry" where
  "hop h = \<lparr>next_hop = Some h, ip = None, port = None\<rparr>"

definition ROUTING_TABLE_sp :: "json \<rightharpoonup> route_entry" where
  "ROUTING_TABLE_sp = map_of
     [(JStr ''command_station'',
         \<lparr>next_hop = Some ''command_station'', ip = Some COMMAND_STATION_IP,
          port = Some (JInt COMMAND_STATION_PORT)\<rparr>),
      (JStr ''sat_1'', hop ''sat_2''),
      (JStr ''sat_2'', hop ''sat_3''),
      (JStr ''sat_3'', hop ''sat_4''),
      (JStr ''sat_4'', hop ''sat_5''),
      (JStr ''sat_5'', hop ''command_station''),
      (JStr ''satellite'', hop ''command_station'')]"

text \<open>
  \<^verbatim>\<open>get_next_hop\<close>: a direct entry, or one \<^verbatim>\<open>next_hop\<close> indirection to a direct entry, or
  \<^verbatim>\<open>None\<close>. Keys are compared structurally.
\<close>

definition get_next_hop :: "json \<Rightarrow> route_entry option prog" where
  "get_next_hop destination s =
     (if \<not> hashable destination then (Inl TypeError, s)
      else (case ROUTING_TABLE s destination of
              None \<Rightarrow> (Inr None, s)
            | Some entry \<Rightarrow>
                if ip entry \<noteq> None \<and> port entry \<noteq> None then (Inr (Some entry), s)
                else (case next_hop entry of
                        None \<Rightarrow> (Inr None, s)
                      | Some static_next_hop \<Rightarrow>
                          if static_next_hop \<noteq> [] then
                            (case ROUTING_TABLE s (JStr static_next_hop) of
                               None \<Rightarrow> (Inr None, s)
                             | Some next_hop_entry \<Rightarrow>
                                 if ip next_hop_entry \<noteq> None \<and> port next_hop_entry \<noteq> None
                                 then (Inr (Some next_hop_entry), s)
                                 else (Inr None, s))
                          else (Inr None, s))))"

text \<open>
  \<^verbatim>\<open>update_routing_table\<close>: the right-hand side \<^verbatim>\<open>{"ip": addr[0], "port": payload["port"]}\<close>
  is evaluated before the assignment hashes the key.
\<close>

definition update_routing_table :: "json \<Rightarrow> string \<times> int \<Rightarrow> unit prog" where
  "update_routing_table message addr =
     bindP (liftP (getitem message ''source'')) (\<lambda>source.
     bindP (liftP (getitem message ''payload'')) (\<lambda>payload.
     bindP (liftP (contains ''port'' payload)) (\<lambda>has_port.
       if has_port then
         bindP (liftP (getitem payload ''port'')) (\<lambda>p s.
           if \<not> hashable source then (Inl TypeError, s)
           else (Inr (),
                 s\<lparr>ROUTING_TABLE :=
                     (ROUTING_TABLE s)(source \<mapsto> \<lparr>next_hop = None, ip = Some (fst addr), port = Some p\<rparr>),
                   shortest_path_updates := shortest_path_updates s + 1\<rparr>))
       else retP ())))"

text \<open>
  The \<^verbatim>\<open>for attempt in range(MAX_RETRIES)\<close> loop of \<^verbatim>\<open>forward_to_neighbor\<close>, by the number
  of attempts left.
\<close>

fun forward_attempts_sp :: "env \<Rightarrow> json \<Rightarrow> string \<Rightarrow> json \<Rightarrow> nat \<Rightarrow> unit prog" where
  "forward_attempts_sp E data_v ip_v port_v 0 s =
     (Inr (), s\<lparr>total_packets_dropped := total_packets_dropped s + 1\<rparr>)"
| "forward_attempts_sp E data_v ip_v port_v (Suc k) s =
     (case bindP (simulate_bandwidth E data_v) (\<lambda>_.
           bindP (sleep ISL_DELAY) (\<lambda>_.
           sendto E data_v ip_v port_v)) s of
        (Inr _, s') \<Rightarrow> (Inr (), s'\<lparr>total_packets_forwarded := total_packets_forwarded s' + 1\<rparr>)
      | (Inl e, s') \<Rightarrow>
          bindP (sleep (1 / 2)) (\<lambda>_. forward_attempts_sp E data_v ip_v port_v k) s')"

definition forward_to_neighbor_sp :: "env \<Rightarrow> json \<Rightarrow> string \<Rightarrow> json \<Rightarrow> unit prog" where
  "forward_to_neighbor_sp E data_v ip_v port_v = forward_attempts_sp E data_v ip_v port_v MAX_RETRIES"

definition forward_message_sp :: "env \<Rightarrow> json \<Rightarrow> unit prog" where
  "forward_message_sp E message =
     bindP (liftP (getitem message ''destination'')) (\<lambda>destination.
     bindP (get_next_hop destination) (\<lambda>found.
       case found of
         Some entry \<Rightarrow>
           (case ip entry of
              None \<Rightarrow> raiseP KeyError
            | Some ip_v \<Rightarrow>
                (case port entry of
                   None \<Rightarrow> raiseP KeyError
                 | Some port_v \<Rightarrow> forward_to_neighbor_sp E message ip_v port_v))
       | None \<Rightarrow>
           (\<lambda>s. (Inr (), s\<lparr>total_packets_dropped := total_packets_dropped s + 1\<rparr>))))"

definition send_ack_sp :: "env \<Rightarrow> string \<times> int \<Rightarrow> json \<Rightarrow> unit prog" where
  "send_ack_sp E addr source =
     bindP (create_message E ''ack'' (satellite_name E) source ack_payload) (\<lambda>ack_message.
     bindP (sendto E ack_message (fst addr) (JInt ACK_LISTEN_PORT)) (\<lambda>_ s.
       (Inr (), s\<lparr>total_acks_sent := total_acks_sent s + 1\<rparr>)))"

text \<open>The body of the \<^verbatim>\<open>try\<close> of \<^verbatim>\<open>handle_connection\<close>, and the handler around it.\<close>

definition handle_connection_body_sp :: "env \<Rightarrow> string \<times> int \<Rightarrow> json \<Rightarrow> unit prog" where
  "handle_connection_body_sp E addr message =
     bindP (time_time E) (\<lambda>start_time.
     bindP (liftP (getitem message ''id'')) (\<lambda>message_id.
     bindP (is_duplicate_sp E message_id) (\<lambda>dup.
       if dup then retP ()
       else
         bindP (liftP (getitem message ''type'')) (\<lambda>msg_type.
         bindP (if msg_type = JStr ''data'' then
                  bindP (forward_message_sp E message) (\<lambda>_.
                  bindP (liftP (getitem message ''source'')) (\<lambda>source.
                  send_ack_sp E addr source))
                else if msg_type = JStr ''announcement'' then
                  update_routing_table message addr
                else retP ()) (\<lambda>_.
         bindP (time_time E) (\<lambda>end_time s.
           (Inr (),
            s\<lparr>total_packets_received := total_packets_received s + 1,
              average_processing_time :=
                (average_processing_time s + (end_time - start_time)) / 2\<rparr>)))))))"

definition handle_connection_sp :: "env \<Rightarrow> string \<times> int \<Rightarrow> json \<Rightarrow> unit prog" where
  "handle_connection_sp E addr message =
     tryP (handle_connection_body_sp E addr message) (\<lambda>e. retP ())"

text \<open>
  \<^verbatim>\<open>connection_worker\<close>: the \<^verbatim>\<open>while True\<close> loop blocks in \<^verbatim>\<open>connection_queue.get()\<close>
  when the queue is empty; the model runs it over the items that are queued, in the
  queue's first-in first-out order, and stops where the code would block.
\<close>

definition task_done :: "unit prog" where
  "task_done s = (Inr (), s\<lparr>tasks_done := tasks_done s + 1\<rparr>)"

fun connection_worker_sp :: "env \<Rightarrow> ((string \<times> int) \<times> json) list \<Rightarrow> unit prog" where
  "connection_worker_sp E [] s = (Inr (), s)"
| "connection_worker_sp E ((addr, message) # rest) s =
     (case tryP (bindP (handle_connection_sp E addr message) (\<lambda>_. task_done)) (\<lambda>e. retP ()) s of
        (Inl e, s') \<Rightarrow> (Inl e, s')
      | (Inr _, s') \<Rightarrow> connection_worker_sp E rest s')"

section \<open>The parallel relay (\<^verbatim>\<open>satellite_node_parallel.py\<close>)\<close>

definition ROUTING_TABLE_static :: "json \<rightharpoonup> route_entry" where
  "ROUTING_TABLE_static = map_of
     [(JStr ''command_station'', hop ''command_station''),
      (JStr ''satellite'', hop ''command_station''),
      (JStr ''sat_1'', hop ''sat_2''),
      (JStr ''sat_2'', hop ''sat_3''),
      (JStr ''sat_3'', hop ''sat_4''),
      (JStr ''sat_4'', hop ''sat_5''),
      (JStr ''sat_5'', hop ''command_station'')]"

definition NEIGHBORS :: "neighbor list" where
  "NEIGHBORS =
     [\<lparr>nid = ''command_station'', nip = ''10.35.70.19'', nport = 33500\<rparr>,
      \<lparr>nid = ''sat_1'', nip = ''127.0.0.1'', nport = 33001\<rparr>,
      \<lparr>nid = ''sat_2'', nip = ''127.0.0.1'', nport = 33002\<rparr>,
      \<lparr>nid = ''sat_3'', nip = ''127.0.0.1'', nport = 33003\<rparr>,
      \<lparr>nid = ''sat_4'', nip = ''127.0.0.1'', nport = 33004\<rparr>,
      \<lparr>nid = ''sat_5'', nip = ''127.0.0.1'', nport = 33005\<rparr>]"

text \<open>
  \<^verbatim>\<open>message_queue\<close> is a \<^verbatim>\<open>queue.PriorityQueue\<close> of \<^verbatim>\<open>(priority, message)\<close> tuples: a
  Python list kept as a binary heap by \<^verbatim>\<open>heapq.heappush\<close> and \<^verbatim>\<open>heapq.heappop\<close> (the
  implementation in C that CPython uses). A new tuple is appended and compared with its
  ancestors only; \<^verbatim>\<open>get()\<close> takes the root, puts the last tuple in its place, moves it
  down to a leaf along the smaller children and then up again. Python compares two tuples
  at the first component where they differ: numbers with numbers, strings with strings;
  two different messages (dicts) of equal priority cannot be ordered and the comparison
  raises \<^verbatim>\<open>TypeError\<close>, which leaves the list as the sifting had it at that moment. Only
  numbers and strings are ordered by the model, other pairs are reported as
  \<^verbatim>\<open>TypeError\<close>; values that are not numbers are equal when they are the same value.
\<close>

fun num_of :: "json \<Rightarrow> real option" where
  "num_of (JInt i) = Some (of_int i)"
| "num_of (JFloat r) = Some r"
| "num_of (JBool b) = Some (if b then 1 else 0)"
| "num_of _ = None"

definition py_eq :: "json \<Rightarrow> json \<Rightarrow> bool" where
  "py_eq a b = (case (num_of a, num_of b) of (Some x, Some y) \<Rightarrow> x = y | _ \<Rightarrow> a = b)"

definition py_lt :: "json \<Rightarrow> json \<Rightarrow> py_error + bool" where
  "py_lt a b =
     (case (num_of a, num_of b) of
        (Some x, Some y) \<Rightarrow> Inr (x < y)
      | _ \<Rightarrow> (case (a, b) of
                (JStr x, JStr y) \<Rightarrow>
                  Inr (lexordp (<) (map of_char x :: nat list) (map of_char y))
              | _ \<Rightarrow> Inl TypeError))"

definition tuple_lt :: "json \<times> json \<Rightarrow> json \<times> json \<Rightarrow> py_error + bool" where
  "tuple_lt x y =
     (if \<not> py_eq (fst x) (fst y) then py_lt (fst x) (fst y)
      else if \<not> py_eq (snd x) (snd y) then py_lt (snd x) (snd y)
      else Inr False)"

text \<open>
  \<^verbatim>\<open>siftdown(heap, startpos, pos)\<close>: the tuple at \<open>pos\<close> is swapped with its parent
  while it is smaller than the parent. The result is the error, if a comparison raised,
  and the list.
\<close>

function siftdown :: "(json \<times> json) list \<Rightarrow> nat \<Rightarrow> nat \<Rightarrow> py_error option \<times> (json \<times> json) list" where
  "siftdown heap startpos pos =
     (if length heap \<le> pos then (Some IndexError, heap)
      else if startpos < pos then
        (case tuple_lt (heap ! pos) (heap ! ((pos - 1) div 2)) of
           Inl e \<Rightarrow> (Some e, heap)
         | Inr False \<Rightarrow> (None, heap)
         | Inr True \<Rightarrow>
             siftdown (heap[(pos - 1) div 2 := heap ! pos, pos := heap ! ((pos - 1) div 2)])
               startpos ((pos - 1) div 2))
      else (None, heap))"
  by pat_completeness auto
termination
  by (relation "measure (\<lambda>(heap, startpos, pos). pos)") auto

declare siftdown.simps [simp del]

text \<open>
  The first loop of \<^verbatim>\<open>siftup(heap, pos)\<close>: the smaller child is swapped up until \<open>pos\<close>
  is a leaf (\<open>endpos\<close> is the length of the list). The result also tells where the
  tuple ended.
\<close>

function siftup_loop ::
  "(json \<times> json) list \<Rightarrow> nat \<Rightarrow> nat \<Rightarrow> py_error option \<times> (json \<times> json) list \<times> nat" where
  "siftup_loop heap endpos pos =
     (if pos < endpos div 2 then
        (if 2 * pos + 2 < endpos then
           (case tuple_lt (heap ! (2 * pos + 1)) (heap ! (2 * pos + 2)) of
              Inl e \<Rightarrow> (Some e, heap, pos)
            | Inr True \<Rightarrow>
                siftup_loop (heap[2 * pos + 1 := heap ! pos, pos := heap ! (2 * pos + 1)])
                  endpos (2 * pos + 1)
            | Inr False \<Rightarrow>
                siftup_loop (heap[2 * pos + 2 := heap ! pos, pos := heap ! (2 * pos + 2)])
                  endpos (2 * pos + 2))
         else
           siftup_loop (heap[2 * pos + 1 := heap ! pos, pos := heap ! (2 * pos + 1)])
             endpos (2 * pos + 1))
      else (None, heap, pos))"
  by pat_completeness auto
termination
  by (relation "measure (\<lambda>(heap, endpos, pos). endpos - pos)") auto

declare siftup_loop.simps [simp del]

definition siftup :: "(json \<times> json) list \<Rightarrow> nat \<Rightarrow> py_error option \<times> (json \<times> json) list" where
  "siftup heap pos =
     (if length heap \<le> pos then (Some IndexError, heap)
      else (case siftup_loop heap (length heap) pos of
              (Some e, heap', pos') \<Rightarrow> (Some e, heap')
            | (None, heap', pos') \<Rightarrow> siftdown heap' pos pos'))"

definition heappush :: "(json \<times> json) list \<Rightarrow> json \<times> json \<Rightarrow> py_error option \<times> (json \<times> json) list" where
  "heappush heap item = siftdown (heap @ [item]) 0 (length heap)"

definition heappop :: "(json \<times> json) list \<Rightarrow> (py_error + json \<times> json) \<times> (json \<times> json) list" where
  "heappop heap =
     (if heap = [] then (Inl IndexError, heap)
      else if butlast heap = [] then (Inr (last heap), [])
      else (case siftup ((butlast heap)[0 := last heap]) 0 of
              (Some e, heap') \<Rightarrow> (Inl e, heap')
            | (None, heap') \<Rightarrow> (Inr (hd heap), heap')))"

definition pq_put :: "json \<times> json \<Rightarrow> unit prog" where
  "pq_put item s =
     (case heappush (message_queue s) item of
        (Some e, heap') \<Rightarrow> (Inl e, s\<lparr>message_queue := heap'\<rparr>)
      | (None, heap') \<Rightarrow> (Inr (), s\<lparr>message_queue := heap'\<rparr>))"

definition pq_get :: "(json \<times> json) prog" where
  "pq_get s = (case heappop (message_queue s) of (r, heap') \<Rightarrow> (r, s\<lparr>message_queue := heap'\<rparr>))"

definition forward_to_command_station_par :: "env \<Rightarrow> json \<Rightarrow> unit prog" where
  "forward_to_command_station_par E data_v =
     tryP (sendto E data_v COMMAND_STATION_IP (JInt COMMAND_STATION_PORT)) (\<lambda>e. retP ())"

definition forward_to_neighbor_par :: "env \<Rightarrow> json \<Rightarrow> neighbor \<Rightarrow> unit prog" where
  "forward_to_neighbor_par E message nb =
     tryP (bindP (sleep (1 / 2)) (\<lambda>_. sendto E message (nip nb) (JInt (nport nb))))
          (\<lambda>e. retP ())"

text \<open>
  One round of the \<^verbatim>\<open>while not message_queue.empty()\<close> loop of \<^verbatim>\<open>route_data\<close>, after
  \<^verbatim>\<open>message_queue.get()\<close> has handed out \<open>msg\<close>. The destination and the id are read
  outside the inner \<^verbatim>\<open>try\<close>.
\<close>

definition route_one_par :: "env \<Rightarrow> neighbor list \<Rightarrow> json \<Rightarrow> unit prog" where
  "route_one_par E neighbors msg =
     bindP (liftP (getitem msg ''destination'')) (\<lambda>destination.
     bindP (liftP (getitem msg ''id'')) (\<lambda>message_id.
     bindP (is_duplicate E message_id) (\<lambda>dup.
       if dup then retP ()
       else
         tryP (\<lambda>s.
                if \<not> hashable destination then (Inl TypeError, s)
                else (case ROUTING_TABLE s destination of
                        Some entry \<Rightarrow>
                          (case next_hop entry of
                             None \<Rightarrow> (Inl KeyError, s)
                           | Some nh \<Rightarrow>
                               if nh = ''command_station''
                               then forward_to_command_station_par E msg s
                               else (case find (\<lambda>n. nid n = nh) neighbors of
                                       Some nb \<Rightarrow> forward_to_neighbor_par E msg nb s
                                     | None \<Rightarrow> (Inl ValueError, s)))
                      | None \<Rightarrow> (Inl KeyError, s)))
              (\<lambda>e. retP ()))))"

text \<open>
  The loop itself: while the queue is not empty, \<^verbatim>\<open>get()\<close> and one round. Nothing in a
  round touches \<^verbatim>\<open>message_queue\<close>, so the queue of the next test is the list \<open>q'\<close> that
  \<^verbatim>\<open>get()\<close> left; it is one entry shorter than \<open>q\<close>, which is why the loop ends.
\<close>

function route_loop_par :: "env \<Rightarrow> neighbor list \<Rightarrow> (json \<times> json) list \<Rightarrow> unit prog" where
  "route_loop_par E neighbors q s =
     (if q = [] then (Inr (), s)
      else (case heappop q of
              (Inl e, q') \<Rightarrow> (Inl e, s\<lparr>message_queue := q'\<rparr>)
            | (Inr item, q') \<Rightarrow>
                (case route_one_par E neighbors (snd item) (s\<lparr>message_queue := q'\<rparr>) of
                   (Inl e, s') \<Rightarrow> (Inl e, s')
                 | (Inr _, s') \<Rightarrow> route_loop_par E neighbors q' s')))"
  by pat_completeness auto
termination
proof (relation "measure (\<lambda>(E, neighbors, q, s). length q)", goal_cases)
  case 1
  show ?case by simp
next
  case (2 E neighbors q s popped q' item)
  have down: "length (snd (siftdown h a b)) = length h" for h a b
    by (induction h a b rule: siftdown.induct)
       (subst siftdown.simps, auto split: sum.splits bool.splits)
  have loop: "length (fst (snd (siftup_loop h a b))) = length h" for h a b
    by (induction h a b rule: siftup_loop.induct)
       (subst siftup_loop.simps, auto split: sum.splits bool.splits)
  have up: "length (snd (siftup h a)) = length h" for h a
    using loop[of h "length h" a]
    by (auto simp: siftup_def down split: prod.splits option.splits)
  have "length (snd (heappop q)) < length q"
  proof (cases "butlast q = []")
    case True
    with 2(1) show ?thesis by (simp add: heappop_def)
  next
    case False
    with 2(1) show ?thesis
      using up[of "(butlast q)[0 := last q]" 0]
      by (cases "siftup ((butlast q)[0 := last q]) 0";
          cases "fst (siftup ((butlast q)[0 := last q]) 0)")
         (simp_all add: heappop_def)
  qed
  moreover have "snd (heappop q) = q'"
    using 2 by (cases "heappop q") auto
  ultimately show ?case by simp
qed

declare route_loop_par.simps [simp del]

definition route_data_par :: "env \<Rightarrow> json \<Rightarrow> neighbor list \<Rightarrow> unit prog" where
  "route_data_par E message neighbors =
     bindP (liftP (get_default message ''priority'' (JInt 1))) (\<lambda>priority.
     bindP (pq_put (priority, message)) (\<lambda>_ s.
       route_loop_par E neighbors (message_queue s) s))"

definition respond_to_vehicle_par :: "env \<Rightarrow> string \<times> int \<Rightarrow> json \<Rightarrow> unit prog" where
  "respond_to_vehicle_par E addr vehicle_id =
     tryP (bindP (create_message E ''ack'' (satellite_name E) vehicle_id ack_payload) (\<lambda>ack_message.
           sendto E ack_message (fst addr) (JInt ACK_LISTEN_PORT)))
          (\<lambda>e. retP ())"

definition handle_connection_body_par :: "env \<Rightarrow> string \<times> int \<Rightarrow> json \<Rightarrow> unit prog" where
  "handle_connection_body_par E addr message =
     bindP (liftP (getitem message ''type'')) (\<lambda>msg_type.
       if msg_type = JStr ''data'' then
         bindP (route_data_par E message NEIGHBORS) (\<lambda>_.
         bindP (liftP (getitem message ''source'')) (\<lambda>source.
         respond_to_vehicle_par E addr source))
       else retP ())"

definition handle_connection_par :: "env \<Rightarrow> string \<times> int \<Rightarrow> json \<Rightarrow> unit prog" where
  "handle_connection_par E addr message =
     tryP (handle_connection_body_par E addr message) (\<lambda>e. retP ())"

fun connection_worker_par :: "env \<Rightarrow> ((string \<times> int) \<times> json) list \<Rightarrow> unit prog" where
  "connection_worker_par E [] s = (Inr (), s)"
| "connection_worker_par E ((addr, message) # rest) s =
     (case tryP (bindP (handle_connection_par E addr message) (\<lambda>_. task_done)) (\<lambda>e. retP ()) s of
        (Inl e, s') \<Rightarrow> (Inl e, s')
      | (Inr _, s') \<Rightarrow> connection_worker_par E rest s')"

section \<open>The channel-characteristics relay (\<^verbatim>\<open>satellite_node_channelchar.py\<close>)\<close>

text \<open>Its routing table and neighbour list are those of the parallel relay.\<close>

definition forward_to_command_station_cc :: "env \<Rightarrow> json \<Rightarrow> unit prog" where
  "forward_to_command_station_cc E data_v =
     tryP (bindP (simulate_bandwidth E data_v) (\<lambda>_.
           bindP (sendto E data_v COMMAND_STATION_IP (JInt COMMAND_STATION_PORT)) (\<lambda>_ s.
             (Inr (), s\<lparr>total_packets_forwarded := total_packets_forwarded s + 1\<rparr>))))
          (\<lambda>e. retP ())"

definition forward_to_neighbor_cc :: "env \<Rightarrow> json \<Rightarrow> neighbor \<Rightarrow> unit prog" where
  "forward_to_neighbor_cc E message nb =
     tryP (bindP (sleep ISL_DELAY) (\<lambda>_.
           bindP (simulate_packet_loss E) (\<lambda>lost.
             if \<not> lost then
               bindP (simulate_bandwidth E message) (\<lambda>_.
               bindP (sendto E message (nip nb) (JInt (nport nb))) (\<lambda>_ s.
                 (Inr (), s\<lparr>total_packets_forwarded := total_packets_forwarded s + 1\<rparr>)))
             else
               (\<lambda>s. (Inr (), s\<lparr>total_packets_dropped := total_packets_dropped s + 1\<rparr>)))))
          (\<lambda>e. retP ())"

definition route_one_cc :: "env \<Rightarrow> neighbor list \<Rightarrow> json \<Rightarrow> unit prog" where
  "route_one_cc E neighbors msg =
     bindP (liftP (getitem msg ''destination'')) (\<lambda>destination.
     bindP (liftP (getitem msg ''id'')) (\<lambda>message_id.
     bindP (is_duplicate E message_id) (\<lambda>dup.
       if dup then retP ()
       else
         tryP (\<lambda>s.
                if \<not> hashable destination then (Inl TypeError, s)
                else (case ROUTING_TABLE s destination of
                        Some entry \<Rightarrow>
                          (case next_hop entry of
                             None \<Rightarrow> (Inl KeyError, s)
                           | Some nh \<Rightarrow>
                               if nh = ''command_station''
                               then forward_to_command_station_cc E msg s
                               else (case find (\<lambda>n. nid n = nh) neighbors of
                                       Some nb \<Rightarrow> forward_to_neighbor_cc E msg nb s
                                     | None \<Rightarrow> (Inr (), s)))
                      | None \<Rightarrow> forward_to_command_station_cc E msg s))
              (\<lambda>e. retP ()))))"

function route_loop_cc :: "env \<Rightarrow> neighbor list \<Rightarrow> (json \<times> json) list \<Rightarrow> unit prog" where
  "route_loop_cc E neighbors q s =
     (if q = [] then (Inr (), s)
      else (case heappop q of
              (Inl e, q') \<Rightarrow> (Inl e, s\<lparr>message_queue := q'\<rparr>)
            | (Inr item, q') \<Rightarrow>
                (case route_one_cc E neighbors (snd item) (s\<lparr>message_queue := q'\<rparr>) of
                   (Inl e, s') \<Rightarrow> (Inl e, s')
                 | (Inr _, s') \<Rightarrow> route_loop_cc E neighbors q' s')))"
  by pat_completeness auto
termination
proof (relation "measure (\<lambda>(E, neighbors, q, s). length q)", goal_cases)
  case 1
  show ?case by simp
next
  case (2 E neighbors q s popped q' item)
  have down: "length (snd (siftdown h a b)) = length h" for h a b
    by (induction h a b rule: siftdown.induct)
       (subst siftdown.simps, auto split: sum.splits bool.splits)
  have loop: "length (fst (snd (siftup_loop h a b))) = length h" for h a b
    by (induction h a b rule: siftup_loop.induct)
       (subst siftup_loop.simps, auto split: sum.splits bool.splits)
  have up: "length (snd (siftup h a)) = length h" for h a
    using loop[of h "length h" a]
    by (auto simp: siftup_def down split: prod.splits option.splits)
  have "length (snd (heappop q)) < length q"
  proof (cases "butlast q = []")
    case True
    with 2(1) show ?thesis by (simp add: heappop_def)
  next
    case False
    with 2(1) show ?thesis
      using up[of "(butlast q)[0 := last q]" 0]
      by (cases "siftup ((butlast q)[0 := last q]) 0";
          cases "fst (siftup ((butlast q)[0 := last q]) 0)")
         (simp_all add: heappop_def)
  qed
  moreover have "snd (heappop q) = q'"
    using 2 by (cases "heappop q") auto
  ultimately show ?case by simp
qed

declare route_loop_cc.simps [simp del]

definition route_data_cc :: "env \<Rightarrow> json \<Rightarrow> neighbor list \<Rightarrow> unit prog" where
  "route_data_cc E message neighbors =
     bindP (liftP (get_default message ''priority'' (JInt 1))) (\<lambda>priority.
     bindP (pq_put (priority, message)) (\<lambda>_ s.
       route_loop_cc E neighbors (message_queue s) s))"

definition respond_to_vehicle_cc :: "env \<Rightarrow> string \<times> int \<Rightarrow> json \<Rightarrow> unit prog" where
  "respond_to_vehicle_cc E addr vehicle_id =
     tryP (bindP (create_message E ''ack'' (satellite_name E) vehicle_id ack_payload) (\<lambda>ack_message.
           bindP (sendto E ack_message (fst addr) (JInt ACK_LISTEN_PORT)) (\<lambda>_ s.
             (Inr (), s\<lparr>total_acks_sent := total_acks_sent s + 1\<rparr>))))
          (\<lambda>e. retP ())"

definition handle_connection_body_cc :: "env \<Rightarrow> string \<times> int \<Rightarrow> json \<Rightarrow> unit prog" where
  "handle_connection_body_cc E addr message =
     bindP (liftP (getitem message ''type'')) (\<lambda>msg_type.
       if msg_type = JStr ''data'' then
         bindP (route_data_cc E message NEIGHBORS) (\<lambda>_.
         bindP (liftP (getitem message ''source'')) (\<lambda>source.
         respond_to_vehicle_cc E addr source))
       else retP ())"

definition handle_connection_cc :: "env \<Rightarrow> string \<times> int \<Rightarrow> json \<Rightarrow> unit prog" where
  "handle_connection_cc E addr message =
     tryP (handle_connection_body_cc E addr message) (\<lambda>e. retP ())"

section \<open>The scalable relay (\<^verbatim>\<open>satellite_node_scalable.py\<close>): forwarding to the sink\<close>

fun forward_attempts_sc :: "env \<Rightarrow> json \<Rightarrow> nat \<Rightarrow> unit prog" where
  "forward_attempts_sc E data_v 0 s =
     (Inr (), s\<lparr>total_packets_dropped := total_packets_dropped s + 1\<rparr>)"
| "forward_attempts_sc E data_v (Suc k) s =
     (case bindP (simulate_bandwidth E data_v) (\<lambda>_.
           sendto E data_v COMMAND_STATION_IP (JInt COMMAND_STATION_PORT)) s of
        (Inr _, s') \<Rightarrow> (Inr (), s'\<lparr>total_packets_forwarded := total_packets_forwarded s' + 1\<rparr>)
      | (Inl e, s') \<Rightarrow> bindP (sleep (1 / 2)) (\<lambda>_. forward_attempts_sc E data_v k) s')"

definition forward_to_command_station_sc :: "env \<Rightarrow> json \<Rightarrow> unit prog" where
  "forward_to_command_station_sc E data_v = forward_attempts_sc E data_v MAX_RETRIES"

section \<open>Reading a trace\<close>

text \<open>
  A datagram is an acknowledgement when its \<^verbatim>\<open>type\<close> field is \<^verbatim>\<open>"ack"\<close>, a forwarded data
  envelope when it is \<^verbatim>\<open>"data"\<close>. \<open>acks_sent\<close> and \<open>data_forwarded\<close> keep the
  datagrams of either kind whose \<^verbatim>\<open>sendto\<close> returned, that is, those that left the process.
\<close>

fun delivered :: "event \<Rightarrow> bool" where
  "delivered (SendTo d i p ok) = ok"
| "delivered (Sleep d) = False"

fun has_type :: "string \<Rightarrow> event \<Rightarrow> bool" where
  "has_type ty (SendTo d i p ok) = (getitem d ''type'' = Inr (JStr ty))"
| "has_type ty (Sleep d) = False"

definition acks_sent :: "event list \<Rightarrow> event list" where
  "acks_sent tr = filter (\<lambda>e. delivered e \<and> has_type ''ack'' e) tr"

definition data_forwarded :: "event list \<Rightarrow> event list" where
  "data_forwarded tr = filter (\<lambda>e. delivered e \<and> has_type ''data'' e) tr"

text \<open>
  The wait before each \<^verbatim>\<open>sendto\<close> after the first: the sum of the sleeps since the
  previous \<^verbatim>\<open>sendto\<close>. The accumulator is the time slept since the last attempt, or
  \<open>None\<close> while no attempt has been made.
\<close>

fun waits_between :: "real option \<Rightarrow> event list \<Rightarrow> real list" where
  "waits_between acc [] = []"
| "waits_between acc (Sleep d # tr) = waits_between (map_option (\<lambda>w. w + d) acc) tr"
| "waits_between acc (SendTo m i p ok # tr) =
     (case acc of None \<Rightarrow> [] | Some w \<Rightarrow> [w]) @ waits_between (Some 0) tr"

text \<open>
  One forwarding attempt as it shows in the trace: the bandwidth delay, the inter-satellite
  delay (short-path relay only) and the \<^verbatim>\<open>sendto\<close> with its outcome. \<open>leading_failures\<close>
  counts how many of the next \<open>k\<close> calls of \<^verbatim>\<open>sendto\<close> to port \<open>p\<close>, starting with the
  \<open>n\<close>-th call of the run, fail before one succeeds. \<open>retry_sleeps\<close> are the sleeps that
  come straight after a \<^verbatim>\<open>sendto\<close> that raised.
\<close>

definition attempt_sp :: "env \<Rightarrow> json \<Rightarrow> string \<Rightarrow> json \<Rightarrow> bool \<Rightarrow> event list" where
  "attempt_sp E d i p ok =
     [Sleep (real (wire_size E d) / BANDWIDTH_LIMIT), Sleep ISL_DELAY, SendTo d i p ok]"

definition attempt_sc :: "env \<Rightarrow> json \<Rightarrow> bool \<Rightarrow> event list" where
  "attempt_sc E d ok =
     [Sleep (real (wire_size E d) / BANDWIDTH_LIMIT),
      SendTo d COMMAND_STATION_IP (JInt COMMAND_STATION_PORT) ok]"

fun leading_failures :: "env \<Rightarrow> json \<Rightarrow> nat \<Rightarrow> nat \<Rightarrow> nat" where
  "leading_failures E p n 0 = 0"
| "leading_failures E p n (Suc k) =
     (if port_error p = None \<and> transport_ok E n then 0
      else Suc (leading_failures E p (Suc n) k))"

fun retry_sleeps :: "event list \<Rightarrow> real list" where
  "retry_sleeps [] = []"
| "retry_sleeps (e # tr) =
     (case (e, tr) of
        (SendTo m i p ok, Sleep d # rest) \<Rightarrow> if ok then [] else [d]
      | _ \<Rightarrow> []) @ retry_sleeps tr"

text \<open>The message \<^verbatim>\<open>send_ack\<close> builds when the clock counter stands at \<open>n\<close>.\<close>

definition ack_to :: "env \<Rightarrow> nat \<Rightarrow> json \<Rightarrow> json" where
  "ack_to E n destination =
     JObj [(''type'', JStr ''ack''),
           (''source'', JStr (satellite_name E)),
           (''destination'', destination),
           (''payload'', ack_payload),
           (''timestamp'', JStr (fst (stamp E n))),
           (''id'', JStr (satellite_name E @ ''-'' @ snd (stamp E n)))]"

fun sent_id :: "event \<Rightarrow> py_error + json" where
  "sent_id (SendTo d i p ok) = getitem d ''id''"
| "sent_id (Sleep d) = Inl KeyError"

section \<open>Start-up state and sample inputs\<close>

definition initial_node :: "(json \<rightharpoonup> route_entry) \<Rightarrow> node" where
  "initial_node table =
     \<lparr>ROUTING_TABLE = table, recent_messages = Map.empty, message_queue = [],
      total_packets_received = 0, total_packets_forwarded = 0, total_packets_dropped = 0,
      total_acks_sent = 0, average_processing_time = 0, duplicate_messages = 0,
      shortest_path_updates = 0, trace = [], n_sends = 0, n_clock = 0, n_rand = 0,
      tasks_done = 0\<rparr>"

text \<open>
  A sample environment: the clock shows \<open>n\<close> seconds at its \<open>n\<close>-th reading, the
  transport accepts the \<open>n\<close>-th \<^verbatim>\<open>sendto\<close> exactly when \<open>ok n\<close>, no simulated loss, every
  serialised message is 100 bytes long, the nanosecond counter reads \<open>10 ^ n\<close>.
\<close>

definition test_env :: "(nat \<Rightarrow> bool) \<Rightarrow> env" where
  "test_env ok =
     \<lparr>clock = (\<lambda>n. real n), transport_ok = ok, packet_lost = (\<lambda>n. False),
      wire_size = (\<lambda>m. 100), stamp = (\<lambda>n. (''2024-01-01T00:00:00Z'', CHR ''1'' # replicate n CHR ''0'')),
      satellite_name = ''satellite_33001''\<rparr>"

text \<open>An envelope as the vehicle's \<^verbatim>\<open>create_message\<close> builds it, with a given id.\<close>

definition envelope :: "string \<Rightarrow> string \<Rightarrow> string \<Rightarrow> json \<Rightarrow> string \<Rightarrow> json" where
  "envelope msg_type source destination payload message_id =
     JObj [(''type'', JStr msg_type),
           (''source'', JStr source),
           (''destination'', JStr destination),
           (''payload'', payload),
           (''timestamp'', JStr ''2024-01-01T00:00:00Z''),
           (''id'', JStr message_id)]"

definition prioritised :: "int \<Rightarrow> string \<Rightarrow> json" where
  "prioritised p message_id =
     JObj [(''type'', JStr ''data''),
           (''source'', JStr ''vehicle_1''),
           (''destination'', JStr ''satellite''),
           (''payload'', JNull),
           (''id'', JStr message_id),
           (''priority'', JInt p)]"

definition vehicle_addr :: "string \<times> int" where
  "vehicle_addr = (''10.0.0.7'', 50000)"

text \<open>A parallel relay that has read its clock 20 times and saw id \<^verbatim>\<open>v1-1\<close> at time \<open>t\<close>.\<close>

definition seen_at :: "real \<Rightarrow> node" where
  "seen_at t =
     (initial_node ROUTING_TABLE_static)\<lparr>recent_messages := [JStr ''v1-1'' \<mapsto> t], n_clock := 20\<rparr>"

section \<open>Vocabulary of the proofs\<close>

text \<open>
  \<open>keeps fld m\<close>: running \<open>m\<close> never changes the component \<open>fld\<close> of the state.
  \<open>static_part\<close> is what only announcements and the worker loop write to.
\<close>

definition keeps :: "(node \<Rightarrow> 'b) \<Rightarrow> 'a prog \<Rightarrow> bool" where
  "keeps fld m = (\<forall>s. fld (snd (m s)) = fld s)"

definition static_part :: "node \<Rightarrow> (json \<rightharpoonup> route_entry) \<times> nat" where
  "static_part s = (ROUTING_TABLE s, tasks_done s)"

section \<open>Concrete instances\<close>

text \<open>Environments, start-up states and envelopes at which the properties are instantiated.\<close>

definition all_ok :: env where
  "all_ok = test_env (\<lambda>n. True)"

definition all_fail :: env where
  "all_fail = test_env (\<lambda>n. False)"

definition forward_fails :: env where
  "forward_fails = test_env (\<lambda>n. 3 \<le> n)"

definition sp_start :: node where
  "sp_start = initial_node ROUTING_TABLE_sp"

definition par_start :: node where
  "par_start = initial_node ROUTING_TABLE_static"

definition stray_ack :: json where
  "stray_ack = envelope ''ack'' ''satellite_33002'' ''vehicle_1'' ack_payload ''satellite_33002-17''"

definition announcement_sat_9 :: json where
  "announcement_sat_9 =
     envelope ''announcement'' ''sat_9'' ''all'' (JObj [(''port'', JInt 44000)]) ''sat_9-1''"

definition announcement_no_port :: json where
  "announcement_no_port =
     envelope ''announcement'' ''sat_9'' ''all'' (JObj [(''status'', JStr ''up'')]) ''sat_9-2''"

definition sample_data :: json where
  "sample_data = envelope ''data'' ''vehicle_1'' ''satellite'' JNull ''vehicle_1-1''"

definition unknown_destination :: json where
  "unknown_destination = envelope ''data'' ''vehicle_1'' ''unknown_xyz'' JNull ''vehicle_1-2''"

text \<open>The entry \<^verbatim>\<open>get_next_hop("satellite")\<close> finds in the start-up table.\<close>

definition forwarded_to_sink :: route_entry where
  "forwarded_to_sink =
     \<lparr>next_hop = Some ''command_station'', ip = Some COMMAND_STATION_IP,
      port = Some (JInt COMMAND_STATION_PORT)\<rparr>"

text \<open>
  Work for one worker: three data envelopes with priorities 3, 1, 2 in arrival order, and
  the same data envelope received twice.
\<close>

definition three_priorities :: "((string \<times> int) \<times> json) list" where
  "three_priorities =
     [(vehicle_addr, prioritised 3 ''p3''),
      (vehicle_addr, prioritised 1 ''p1''),
      (vehicle_addr, prioritised 2 ''p2'')]"

definition sent_twice :: "((string \<times> int) \<times> json) list" where
  "sent_twice = [(vehicle_addr, sample_data), (vehicle_addr, sample_data)]"

section \<open>Properties\<close>

lemmas prog_defs =
  retP_def raiseP_def liftP_def bindP_def tryP_def time_time_def sleep_def sendto_def

lemma restrict_then_update:
  "(m |` (- {k}))(k \<mapsto> v) = m(k \<mapsto> v)"
  by (rule ext) (simp add: restrict_map_def)

text \<open>
  C4. \<^verbatim>\<open>is_duplicate(id)\<close> at clock reading \<open>now\<close>: an absent id is recorded with \<open>now\<close> and
  the answer is false; an id first seen less than 10 seconds ago gives true and the
  store is untouched; an id first seen 10 seconds ago or more has its record replaced by
  \<open>now\<close> and the answer is false, so an id seen 11 seconds earlier is novel again.
\<close>

theorem is_duplicate_contract:
  assumes h: "hashable message_id"
  shows "(recent_messages s message_id = None \<longrightarrow>
            fst (is_duplicate E message_id s) = Inr False \<and>
            recent_messages (snd (is_duplicate E message_id s)) =
              (recent_messages s)(message_id \<mapsto> clock E (n_clock s)))
       \<and> (\<forall>first_seen. recent_messages s message_id = Some first_seen \<and>
              clock E (n_clock s) - first_seen < 10 \<longrightarrow>
            fst (is_duplicate E message_id s) = Inr True \<and>
            recent_messages (snd (is_duplicate E message_id s)) = recent_messages s)
       \<and> (\<forall>first_seen. recent_messages s message_id = Some first_seen \<and>
              10 \<le> clock E (n_clock s) - first_seen \<longrightarrow>
            fst (is_duplicate E message_id s) = Inr False \<and>
            recent_messages (snd (is_duplicate E message_id s)) =
              (recent_messages s)(message_id \<mapsto> clock E (n_clock s)))
       \<and> (recent_messages s message_id = Some (clock E (n_clock s) - 11) \<longrightarrow>
            fst (is_duplicate E message_id s) = Inr False)"
  using h
  by (simp add: is_duplicate_def bindP_def time_time_def restrict_then_update)

theorem is_duplicate_contract_witness:
  "hashable (JStr ''v1-1'')
   \<and> recent_messages (initial_node ROUTING_TABLE_static) (JStr ''v1-1'') = None
   \<and> fst (is_duplicate (test_env (\<lambda>n. True)) (JStr ''v1-1'') (initial_node ROUTING_TABLE_static)) = Inr False
   \<and> recent_messages (snd (is_duplicate (test_env (\<lambda>n. True)) (JStr ''v1-1'')
         (initial_node ROUTING_TABLE_static))) (JStr ''v1-1'') = Some 0
   \<and> recent_messages (seen_at 15) (JStr ''v1-1'') = Some 15
   \<and> fst (is_duplicate (test_env (\<lambda>n. True)) (JStr ''v1-1'') (seen_at 15)) = Inr True
   \<and> recent_messages (snd (is_duplicate (test_env (\<lambda>n. True)) (JStr ''v1-1'') (seen_at 15)))
        (JStr ''v1-1'') = Some 15
   \<and> recent_messages (seen_at 9) (JStr ''v1-1'') = Some 9
   \<and> fst (is_duplicate (test_env (\<lambda>n. True)) (JStr ''v1-1'') (seen_at 9)) = Inr False
   \<and> recent_messages (snd (is_duplicate (test_env (\<lambda>n. True)) (JStr ''v1-1'') (seen_at 9)))
        (JStr ''v1-1'') = Some 20"
  using is_duplicate_contract [of "JStr ''v1-1''" "initial_node ROUTING_TABLE_static" "test_env (\<lambda>n. True)"]
        is_duplicate_contract [of "JStr ''v1-1''" "seen_at 15" "test_env (\<lambda>n. True)"]
        is_duplicate_contract [of "JStr ''v1-1''" "seen_at 9" "test_env (\<lambda>n. True)"]
  by (simp add: seen_at_def initial_node_def test_env_def)

subsection \<open>Frame properties\<close>

lemma keepsD: "keeps fld m \<Longrightarrow> fld (snd (m s)) = fld s"
  by (simp add: keeps_def)

lemma keeps_retP: "keeps fld (retP v)"
  by (simp add: keeps_def retP_def)

lemma keeps_raiseP: "keeps fld (raiseP e)"
  by (simp add: keeps_def raiseP_def)

lemma keeps_liftP: "keeps fld (liftP r)"
  by (simp add: keeps_def liftP_def)

lemma keeps_bindP:
  assumes "keeps fld m" and "\<And>v. keeps fld (g v)"
  shows "keeps fld (bindP m g)"
  unfolding keeps_def
proof
  fix s
  show "fld (snd (bindP m g s)) = fld s"
  proof (cases "m s")
    case (Pair r s')
    have "fld s' = fld s" using keepsD[OF assms(1), of s] Pair by simp
    then show ?thesis
      using Pair keepsD[OF assms(2)] by (cases r) (simp_all add: bindP_def)
  qed
qed

lemma keeps_tryP:
  assumes "keeps fld m" and "\<And>e. keeps fld (h e)"
  shows "keeps fld (tryP m h)"
  unfolding keeps_def
proof
  fix s
  show "fld (snd (tryP m h s)) = fld s"
  proof (cases "m s")
    case (Pair r s')
    have "fld s' = fld s" using keepsD[OF assms(1), of s] Pair by simp
    then show ?thesis
      using Pair keepsD[OF assms(2)] by (cases r) (simp_all add: tryP_def)
  qed
qed

lemma keeps_if: "keeps fld a \<Longrightarrow> keeps fld b \<Longrightarrow> keeps fld (if c then a else b)"
  by simp

lemma keeps_case_option:
  "keeps fld a \<Longrightarrow> (\<And>x. keeps fld (b x)) \<Longrightarrow> keeps fld (case v of None \<Rightarrow> a | Some x \<Rightarrow> b x)"
  by (cases v) simp_all

lemmas keeps_intros =
  keeps_retP keeps_raiseP keeps_liftP keeps_bindP keeps_tryP keeps_if keeps_case_option

lemma keeps_static_table: "keeps static_part m \<Longrightarrow> keeps ROUTING_TABLE m"
  by (simp add: keeps_def static_part_def)

lemma keeps_static_tasks: "keeps static_part m \<Longrightarrow> keeps tasks_done m"
  by (simp add: keeps_def static_part_def)

subsection \<open>What the building blocks leave alone\<close>

lemma st_time_time: "keeps static_part (time_time E)"
  by (simp add: keeps_def static_part_def time_time_def)

lemma st_sleep: "keeps static_part (sleep d)"
  by (simp add: keeps_def static_part_def sleep_def)

lemma st_sendto: "keeps static_part (sendto E d i p)"
  by (simp add: keeps_def static_part_def sendto_def Let_def)

lemma st_simulate_bandwidth: "keeps static_part (simulate_bandwidth E d)"
  by (simp add: simulate_bandwidth_def st_sleep)

lemma st_create_message: "keeps static_part (create_message E a b c d)"
  by (simp add: keeps_def static_part_def create_message_def)

lemma st_is_duplicate: "keeps static_part (is_duplicate E m)"
  by (simp add: keeps_def static_part_def is_duplicate_def prog_defs split: option.splits)

lemma st_is_duplicate_sp: "keeps static_part (is_duplicate_sp E m)"
  by (simp add: keeps_def static_part_def is_duplicate_sp_def prog_defs split: option.splits)

lemma st_get_next_hop: "keeps static_part (get_next_hop d)"
  by (simp add: keeps_def static_part_def get_next_hop_def split: option.splits)

lemma st_count_dropped:
  "keeps static_part (\<lambda>s. (Inr (), s\<lparr>total_packets_dropped := total_packets_dropped s + 1\<rparr>))"
  by (simp add: keeps_def static_part_def)

lemma st_count_forwarded:
  "keeps static_part (\<lambda>s. (Inr (), s\<lparr>total_packets_forwarded := total_packets_forwarded s + 1\<rparr>))"
  by (simp add: keeps_def static_part_def)

lemma st_count_acks:
  "keeps static_part (\<lambda>s. (Inr (), s\<lparr>total_acks_sent := total_acks_sent s + 1\<rparr>))"
  by (simp add: keeps_def static_part_def)

lemma st_forward_attempts_sp: "keeps static_part (forward_attempts_sp E d i p k)"
proof (induction k)
  case 0
  show ?case by (simp add: keeps_def static_part_def)
next
  case (Suc k)
  have a: "keeps static_part
             (bindP (simulate_bandwidth E d) (\<lambda>_. bindP (sleep ISL_DELAY) (\<lambda>_. sendto E d i p)))"
    by (intro keeps_intros st_simulate_bandwidth st_sleep st_sendto)
  have b: "keeps static_part (bindP (sleep (1 / 2)) (\<lambda>_. forward_attempts_sp E d i p k))"
    by (intro keeps_intros st_sleep Suc)
  show ?case
    unfolding keeps_def
  proof
    fix s
    show "static_part (snd (forward_attempts_sp E d i p (Suc k) s)) = static_part s"
      using keepsD[OF a, of s] keepsD[OF b]
      by (auto simp: static_part_def split: prod.splits sum.splits)
  qed
qed

lemma st_forward_message_sp: "keeps static_part (forward_message_sp E message)"
  unfolding forward_message_sp_def forward_to_neighbor_sp_def
  by (intro keeps_intros st_get_next_hop st_forward_attempts_sp st_count_dropped)

lemma st_send_ack_sp: "keeps static_part (send_ack_sp E addr source)"
  unfolding send_ack_sp_def
  by (intro keeps_intros st_create_message st_sendto st_count_acks)

lemma td_update_routing_table: "keeps tasks_done (update_routing_table m a)"
  by (simp add: keeps_def update_routing_table_def prog_defs split: sum.splits)

lemma st_finish_sp:
  "keeps static_part (\<lambda>s. (Inr (),
      s\<lparr>total_packets_received := total_packets_received s + 1,
        average_processing_time := (average_processing_time s + d) / 2\<rparr>))"
  by (simp add: keeps_def static_part_def)

lemma td_handle_connection_sp: "keeps tasks_done (handle_connection_sp E addr message)"
  unfolding handle_connection_sp_def handle_connection_body_sp_def
  by (intro keeps_intros keeps_static_tasks[OF st_time_time] keeps_static_tasks[OF st_is_duplicate_sp]
        keeps_static_tasks[OF st_forward_message_sp] keeps_static_tasks[OF st_send_ack_sp]
        td_update_routing_table keeps_static_tasks[OF st_finish_sp])


lemma st_pq_put: "keeps static_part (pq_put item)"
  by (simp add: keeps_def static_part_def pq_put_def split: prod.splits option.splits)

lemma st_forward_to_command_station_par: "keeps static_part (forward_to_command_station_par E d)"
  unfolding forward_to_command_station_par_def
  by (intro keeps_intros st_sendto)

lemma st_forward_to_neighbor_par: "keeps static_part (forward_to_neighbor_par E d nb)"
  unfolding forward_to_neighbor_par_def
  by (intro keeps_intros st_sleep st_sendto)

lemma st_route_choice_par:
  "keeps static_part (\<lambda>s.
     if \<not> hashable destination then (Inl TypeError, s)
     else (case ROUTING_TABLE s destination of
             Some entry \<Rightarrow>
               (case next_hop entry of
                  None \<Rightarrow> (Inl KeyError, s)
                | Some nh \<Rightarrow>
                    if nh = ''command_station''
                    then forward_to_command_station_par E msg s
                    else (case find (\<lambda>n. nid n = nh) neighbors of
                            Some nb \<Rightarrow> forward_to_neighbor_par E msg nb s
                          | None \<Rightarrow> (Inl ValueError, s)))
           | None \<Rightarrow> (Inl KeyError, s)))"
  using keepsD[OF st_forward_to_command_station_par] keepsD[OF st_forward_to_neighbor_par]
  by (simp add: keeps_def split: option.splits)

lemma st_route_one_par: "keeps static_part (route_one_par E neighbors msg)"
  unfolding route_one_par_def
  by (intro keeps_intros st_is_duplicate st_route_choice_par)

lemma st_route_loop_par: "keeps static_part (route_loop_par E neighbors q)"
  unfolding keeps_def
proof
  fix s
  show "static_part (snd (route_loop_par E neighbors q s)) = static_part s"
  proof (induction E neighbors q s rule: route_loop_par.induct)
    case (1 E neighbors q s)
    show ?case
    proof (cases "q = []")
      case True
      then show ?thesis by (subst route_loop_par.simps) simp
    next
      case False
      obtain r q' where pop: "heappop q = (r, q')" by (cases "heappop q")
      show ?thesis
      proof (cases r)
        case (Inl e)
        with False pop show ?thesis
          by (subst route_loop_par.simps) (simp add: static_part_def)
      next
        case (Inr item)
        obtain r1 s1 where one:
          "route_one_par E neighbors (snd item) (s\<lparr>message_queue := q'\<rparr>) = (r1, s1)"
          by (cases "route_one_par E neighbors (snd item) (s\<lparr>message_queue := q'\<rparr>)")
        have s1: "static_part s1 = static_part s"
          using keepsD[OF st_route_one_par, of E neighbors "snd item" "s\<lparr>message_queue := q'\<rparr>"] one
          by (simp add: static_part_def)
        show ?thesis
        proof (cases r1)
          case (Inl e)
          with False pop Inr one s1 show ?thesis
            by (subst route_loop_par.simps) simp
        next
          case inr: (Inr u)
          have "static_part (snd (route_loop_par E neighbors q' s1)) = static_part s1"
            using "1.IH"[OF False pop[symmetric] Inr one[symmetric] inr] .
          with False pop Inr one s1 inr show ?thesis
            by (subst route_loop_par.simps) simp
        qed
      qed
    qed
  qed
qed

lemma st_route_data_par: "keeps static_part (route_data_par E message neighbors)"
proof -
  have "keeps static_part (\<lambda>s. route_loop_par E neighbors (message_queue s) s)"
    using keepsD[OF st_route_loop_par] by (simp add: keeps_def)
  then show ?thesis
    unfolding route_data_par_def by (intro keeps_intros st_pq_put)
qed

lemma st_respond_to_vehicle_par: "keeps static_part (respond_to_vehicle_par E addr v)"
  unfolding respond_to_vehicle_par_def
  by (intro keeps_intros st_create_message st_sendto)

lemma st_handle_connection_par: "keeps static_part (handle_connection_par E addr message)"
  unfolding handle_connection_par_def handle_connection_body_par_def
  by (intro keeps_intros st_route_data_par st_respond_to_vehicle_par)

subsection \<open>Containment of failures\<close>

lemma handle_connection_sp_returns: "fst (handle_connection_sp E addr message s) = Inr ()"
  by (simp add: handle_connection_sp_def tryP_def retP_def split: prod.splits sum.splits)

lemma handle_connection_par_returns: "fst (handle_connection_par E addr message s) = Inr ()"
  by (simp add: handle_connection_par_def tryP_def retP_def split: prod.splits sum.splits)

lemma worker_step_sp:
  "tryP (bindP (handle_connection_sp E addr message) (\<lambda>_. task_done)) (\<lambda>e. retP ()) s =
     (Inr (), (snd (handle_connection_sp E addr message s))
                \<lparr>tasks_done := tasks_done s + 1\<rparr>)"
  using handle_connection_sp_returns[of E addr message s]
        keepsD[OF td_handle_connection_sp, of E addr message s]
  by (cases "handle_connection_sp E addr message s")
     (simp add: tryP_def bindP_def task_done_def)

lemma worker_step_par:
  "tryP (bindP (handle_connection_par E addr message) (\<lambda>_. task_done)) (\<lambda>e. retP ()) s =
     (Inr (), (snd (handle_connection_par E addr message s))
                \<lparr>tasks_done := tasks_done s + 1\<rparr>)"
  using handle_connection_par_returns[of E addr message s]
        keepsD[OF keeps_static_tasks[OF st_handle_connection_par], of E addr message s]
  by (cases "handle_connection_par E addr message s")
     (simp add: tryP_def bindP_def task_done_def)

lemma connection_worker_sp_runs:
  "fst (connection_worker_sp E items s) = Inr ()
   \<and> tasks_done (snd (connection_worker_sp E items s)) = tasks_done s + length items"
proof (induction items arbitrary: s)
  case Nil
  show ?case by simp
next
  case (Cons item items)
  obtain addr message where item: "item = (addr, message)" by (cases item)
  show ?case
    using Cons[of "(snd (handle_connection_sp E addr message s))\<lparr>tasks_done := tasks_done s + 1\<rparr>"]
    by (simp add: item worker_step_sp)
qed

lemma connection_worker_par_runs:
  "fst (connection_worker_par E items s) = Inr ()
   \<and> tasks_done (snd (connection_worker_par E items s)) = tasks_done s + length items"
proof (induction items arbitrary: s)
  case Nil
  show ?case by simp
next
  case (Cons item items)
  obtain addr message where item: "item = (addr, message)" by (cases item)
  show ?case
    using Cons[of "(snd (handle_connection_par E addr message s))\<lparr>tasks_done := tasks_done s + 1\<rparr>"]
    by (simp add: item worker_step_par)
qed

lemma connection_worker_sp_step:
  "connection_worker_sp E ((addr, message) # rest) s =
     connection_worker_sp E rest
       ((snd (handle_connection_sp E addr message s))\<lparr>tasks_done := tasks_done s + 1\<rparr>)"
  by (simp add: worker_step_sp)

lemma connection_worker_par_step:
  "connection_worker_par E ((addr, message) # rest) s =
     connection_worker_par E rest
       ((snd (handle_connection_par E addr message s))\<lparr>tasks_done := tasks_done s + 1\<rparr>)"
  by (simp add: worker_step_par)

lemma connection_worker_sp_append:
  "connection_worker_sp E (items @ later) s =
     connection_worker_sp E later (snd (connection_worker_sp E items s))"
proof (induction items arbitrary: s)
  case Nil
  show ?case by simp
next
  case (Cons item items)
  obtain addr message where item: "item = (addr, message)" by (cases item)
  show ?case
    using Cons by (simp add: item worker_step_sp)
qed

lemma connection_worker_par_append:
  "connection_worker_par E (items @ later) s =
     connection_worker_par E later (snd (connection_worker_par E items s))"
proof (induction items arbitrary: s)
  case Nil
  show ?case by simp
next
  case (Cons item items)
  obtain addr message where item: "item = (addr, message)" by (cases item)
  show ?case
    using Cons by (simp add: item worker_step_par)
qed

text \<open>
  C8. Whatever an item makes the handler's body raise (a malformed field, a routing error,
  a failed send) stays inside \<^verbatim>\<open>handle_connection\<close>: the handler returns normally in
  the short-path and in the parallel relay, the worker's loop is never left by an
  exception, and the worker reaches \<^verbatim>\<open>task_done()\<close> once for every queued item.
  The other queued items are processed as if nothing had happened: after any first item
  the worker runs the rest of the queue from the state that item's handler left (with
  \<^verbatim>\<open>task_done()\<close> counted), and a queue processed in two parts gives what processing it in
  one piece gives, whichever items fail on the way.
\<close>

theorem failures_contained:
  "fst (handle_connection_sp E addr message s) = Inr ()
   \<and> fst (handle_connection_par E addr message s) = Inr ()
   \<and> fst (connection_worker_sp E items s) = Inr ()
   \<and> tasks_done (snd (connection_worker_sp E items s)) = tasks_done s + length items
   \<and> fst (connection_worker_par E items s) = Inr ()
   \<and> tasks_done (snd (connection_worker_par E items s)) = tasks_done s + length items
   \<and> connection_worker_sp E ((addr, message) # items) s =
       connection_worker_sp E items
         ((snd (handle_connection_sp E addr message s))\<lparr>tasks_done := tasks_done s + 1\<rparr>)
   \<and> connection_worker_par E ((addr, message) # items) s =
       connection_worker_par E items
         ((snd (handle_connection_par E addr message s))\<lparr>tasks_done := tasks_done s + 1\<rparr>)
   \<and> connection_worker_sp E (items @ later) s =
       connection_worker_sp E later (snd (connection_worker_sp E items s))
   \<and> connection_worker_par E (items @ later) s =
       connection_worker_par E later (snd (connection_worker_par E items s))"
  using handle_connection_sp_returns[of E addr message s]
        handle_connection_par_returns[of E addr message s]
        connection_worker_sp_runs[of E items s] connection_worker_par_runs[of E items s]
        connection_worker_sp_step[of E addr message items s]
        connection_worker_par_step[of E addr message items s]
        connection_worker_sp_append[of E items later s]
        connection_worker_par_append[of E items later s]
  by (intro conjI) simp_all

lemma handler_body_can_fail:
  "fst (handle_connection_body_sp E addr (JObj []) s) = Inl KeyError
   \<and> fst (handle_connection_body_sp E addr JNull s) = Inl TypeError
   \<and> fst (handle_connection_body_par E addr (JObj []) s) = Inl KeyError"
  by (simp add: handle_connection_body_sp_def handle_connection_body_par_def prog_defs)

text \<open>
  An envelope without any field makes the body raise \<^verbatim>\<open>KeyError\<close>; the data envelope
  queued behind it is forwarded and acknowledged all the same.
\<close>

lemma item_after_failed_item:
  "length (data_forwarded
     (trace (snd (connection_worker_sp all_ok [(vehicle_addr, JObj []), (vehicle_addr, sample_data)]
                    sp_start)))) = 1
   \<and> length (acks_sent
     (trace (snd (connection_worker_sp all_ok [(vehicle_addr, JObj []), (vehicle_addr, sample_data)]
                    sp_start)))) = 1
   \<and> length (data_forwarded
     (trace (snd (connection_worker_par all_ok [(vehicle_addr, JObj []), (vehicle_addr, sample_data)]
                    par_start)))) = 1
   \<and> length (acks_sent
     (trace (snd (connection_worker_par all_ok [(vehicle_addr, JObj []), (vehicle_addr, sample_data)]
                    par_start)))) = 1"
  by (simp add: handle_connection_sp_def handle_connection_body_sp_def is_duplicate_sp_def
        forward_message_sp_def get_next_hop_def forward_to_neighbor_sp_def MAX_RETRIES_def
        numeral_3_eq_3 send_ack_sp_def create_message_def simulate_bandwidth_def task_done_def
        handle_connection_par_def handle_connection_body_par_def route_data_par_def pq_put_def
        heappush_def heappop_def siftdown.simps route_loop_par.simps
        route_one_par_def is_duplicate_def forward_to_command_station_par_def
        respond_to_vehicle_par_def prog_defs
        all_ok_def test_env_def sp_start_def par_start_def initial_node_def sample_data_def
        envelope_def vehicle_addr_def ROUTING_TABLE_sp_def ROUTING_TABLE_static_def hop_def
        ack_payload_def ACK_LISTEN_PORT_def COMMAND_STATION_PORT_def COMMAND_STATION_IP_def
        BANDWIDTH_LIMIT_def ISL_DELAY_def data_forwarded_def acks_sent_def)


subsection \<open>Envelopes of other types\<close>

text \<open>
  C9. An envelope whose \<^verbatim>\<open>type\<close> is neither \<^verbatim>\<open>"data"\<close> nor \<^verbatim>\<open>"announcement"\<close> (a stray
  \<^verbatim>\<open>"ack"\<close>, or no readable type at all) makes none of the three handlers transmit: the
  trace of sends and sleeps is exactly what it was.
\<close>

theorem other_types_send_nothing:
  assumes "getitem message ''type'' \<noteq> Inr (JStr ''data'')"
      and "getitem message ''type'' \<noteq> Inr (JStr ''announcement'')"
  shows "trace (snd (handle_connection_par E addr message s)) = trace s
       \<and> trace (snd (handle_connection_cc E addr message s)) = trace s
       \<and> trace (snd (handle_connection_sp E addr message s)) = trace s"
proof (intro conjI)
  show "trace (snd (handle_connection_par E addr message s)) = trace s"
    using assms(1)
    by (cases "getitem message ''type''")
       (simp_all add: handle_connection_par_def handle_connection_body_par_def prog_defs)
  show "trace (snd (handle_connection_cc E addr message s)) = trace s"
    using assms(1)
    by (cases "getitem message ''type''")
       (simp_all add: handle_connection_cc_def handle_connection_body_cc_def prog_defs)
  show "trace (snd (handle_connection_sp E addr message s)) = trace s"
    using assms
    by (cases "getitem message ''type''"; cases "getitem message ''id''")
       (auto simp: handle_connection_sp_def handle_connection_body_sp_def is_duplicate_sp_def
          prog_defs split: option.splits)
qed


theorem other_types_send_nothing_witness:
  "getitem stray_ack ''type'' \<noteq> Inr (JStr ''data'')
   \<and> getitem stray_ack ''type'' \<noteq> Inr (JStr ''announcement'')
   \<and> trace (snd (handle_connection_par all_ok vehicle_addr stray_ack par_start)) = []
   \<and> trace (snd (handle_connection_cc all_ok vehicle_addr stray_ack par_start)) = []
   \<and> trace (snd (handle_connection_sp all_ok vehicle_addr stray_ack sp_start)) = []"
proof -
  have a: "getitem stray_ack ''type'' \<noteq> Inr (JStr ''data'')"
    by (simp add: stray_ack_def envelope_def)
  have b: "getitem stray_ack ''type'' \<noteq> Inr (JStr ''announcement'')"
    by (simp add: stray_ack_def envelope_def)
  show ?thesis
    using a b other_types_send_nothing [OF a b, of all_ok vehicle_addr par_start]
          other_types_send_nothing [OF a b, of all_ok vehicle_addr sp_start]
    by (simp add: par_start_def sp_start_def initial_node_def)
qed

subsection \<open>Learning routes from announcements\<close>

lemma update_routing_table_frame:
  assumes "\<not> (\<exists>kvs p. getitem message ''payload'' = Inr (JObj kvs) \<and> map_of kvs ''port'' = Some p)"
  shows "ROUTING_TABLE (snd (update_routing_table message addr s)) = ROUTING_TABLE s"
proof (cases "getitem message ''payload''")
  case (Inl e)
  then show ?thesis
    by (simp add: update_routing_table_def prog_defs split: sum.splits)
next
  case (Inr payload)
  with assms show ?thesis
    by (cases payload) (auto simp: update_routing_table_def prog_defs split: sum.splits option.splits)
qed

text \<open>
  C10. When the payload of an envelope is not an object with a \<^verbatim>\<open>"port"\<close> key,
  \<^verbatim>\<open>update_routing_table\<close> and the whole of \<^verbatim>\<open>handle_connection\<close> of the short-path relay
  leave \<^verbatim>\<open>ROUTING_TABLE\<close> exactly as it was.
\<close>

theorem announcement_without_port:
  assumes "\<not> (\<exists>kvs p. getitem message ''payload'' = Inr (JObj kvs) \<and> map_of kvs ''port'' = Some p)"
  shows "ROUTING_TABLE (snd (update_routing_table message addr s)) = ROUTING_TABLE s
       \<and> ROUTING_TABLE (snd (handle_connection_sp E addr message s)) = ROUTING_TABLE s"
proof -
  have u: "keeps ROUTING_TABLE (update_routing_table message addr)"
    using update_routing_table_frame[OF assms] by (simp add: keeps_def)
  have "keeps ROUTING_TABLE (handle_connection_sp E addr message)"
    unfolding handle_connection_sp_def handle_connection_body_sp_def
    by (intro keeps_intros keeps_static_table[OF st_time_time]
          keeps_static_table[OF st_is_duplicate_sp] keeps_static_table[OF st_forward_message_sp]
          keeps_static_table[OF st_send_ack_sp] u keeps_static_table[OF st_finish_sp])
  then show ?thesis
    using u by (simp add: keeps_def)
qed

theorem announcement_without_port_witness:
  "\<not> (\<exists>kvs p. getitem announcement_no_port ''payload'' = Inr (JObj kvs) \<and> map_of kvs ''port'' = Some p)
   \<and> ROUTING_TABLE (snd (update_routing_table announcement_no_port (''10.0.0.5'', 44000) sp_start))
       = ROUTING_TABLE_sp
   \<and> ROUTING_TABLE (snd (handle_connection_sp all_ok (''10.0.0.5'', 44000) announcement_no_port sp_start))
       = ROUTING_TABLE_sp"
proof -
  have a: "\<not> (\<exists>kvs p. getitem announcement_no_port ''payload'' = Inr (JObj kvs)
                        \<and> map_of kvs ''port'' = Some p)"
    by (simp add: announcement_no_port_def envelope_def)
  show ?thesis
    using a announcement_without_port [OF a, of "(''10.0.0.5'', 44000)" sp_start all_ok]
    by (simp add: sp_start_def initial_node_def)
qed

text \<open>
  C6. Learning from an announcement of source \<open>src\<close> whose payload carries port \<open>p\<close>,
  received from address \<open>addr\<close>: \<^verbatim>\<open>update_routing_table\<close> returns normally, the table is
  the old one with the entry of \<open>src\<close> overwritten by the direct endpoint
  \<open>(addr[0], p)\<close>, and \<^verbatim>\<open>get_next_hop(src)\<close> then returns that endpoint.
\<close>

theorem announcement_learning:
  assumes "getitem message ''source'' = Inr src" and "hashable src"
      and "getitem message ''payload'' = Inr (JObj kvs)" and "map_of kvs ''port'' = Some p"
  shows "fst (update_routing_table message addr s) = Inr ()
       \<and> ROUTING_TABLE (snd (update_routing_table message addr s)) =
           (ROUTING_TABLE s)(src \<mapsto> \<lparr>next_hop = None, ip = Some (fst addr), port = Some p\<rparr>)
       \<and> fst (get_next_hop src (snd (update_routing_table message addr s))) =
           Inr (Some \<lparr>next_hop = None, ip = Some (fst addr), port = Some p\<rparr>)"
  using assms by (simp add: update_routing_table_def get_next_hop_def prog_defs)

theorem announcement_learning_witness:
  "getitem announcement_sat_9 ''source'' = Inr (JStr ''sat_9'')
   \<and> hashable (JStr ''sat_9'')
   \<and> getitem announcement_sat_9 ''payload'' = Inr (JObj [(''port'', JInt 44000)])
   \<and> map_of [(''port'', JInt 44000)] ''port'' = Some (JInt 44000)
   \<and> fst (get_next_hop (JStr ''sat_9'')
            (snd (update_routing_table announcement_sat_9 (''10.0.0.5'', 51000) sp_start))) =
       Inr (Some \<lparr>next_hop = None, ip = Some ''10.0.0.5'', port = Some (JInt 44000)\<rparr>)"
proof -
  have a: "getitem announcement_sat_9 ''source'' = Inr (JStr ''sat_9'')"
    by (simp add: announcement_sat_9_def envelope_def)
  have b: "hashable (JStr ''sat_9'')" by simp
  have c: "getitem announcement_sat_9 ''payload'' = Inr (JObj [(''port'', JInt 44000)])"
    by (simp add: announcement_sat_9_def envelope_def)
  have d: "map_of [(''port'', JInt 44000)] ''port'' = Some (JInt 44000)" by simp
  show ?thesis
    using a b c d announcement_learning [OF a b c d, of "(''10.0.0.5'', 51000)" sp_start]
    by simp
qed

lemma handle_connection_sp_learns:
  assumes "getitem message ''id'' = Inr mid" and "hashable mid" and "recent_messages s mid = None"
      and "getitem message ''type'' = Inr (JStr ''announcement'')"
      and "getitem message ''source'' = Inr src" and "hashable src"
      and "getitem message ''payload'' = Inr (JObj kvs)" and "map_of kvs ''port'' = Some p"
  shows "fst (get_next_hop src (snd (handle_connection_sp E addr message s))) =
           Inr (Some \<lparr>next_hop = None, ip = Some (fst addr), port = Some p\<rparr>)"
  using assms
  by (simp add: handle_connection_sp_def handle_connection_body_sp_def is_duplicate_sp_def
        update_routing_table_def get_next_hop_def prog_defs)

lemma handle_connection_sp_suppresses:
  assumes "getitem message ''id'' = Inr mid" and "hashable mid"
      and "recent_messages s mid = Some first_seen"
      and "clock E (n_clock s + 1) - first_seen < 10"
  shows "handle_connection_sp E addr message s =
           (Inr (), s\<lparr>n_clock := n_clock s + 2, duplicate_messages := duplicate_messages s + 1\<rparr>)"
  using assms
  by (simp add: handle_connection_sp_def handle_connection_body_sp_def is_duplicate_sp_def prog_defs)

lemmas sp_defs =
  handle_connection_sp_def handle_connection_body_sp_def is_duplicate_sp_def
  forward_message_sp_def get_next_hop_def forward_to_neighbor_sp_def MAX_RETRIES_def
  numeral_3_eq_3 send_ack_sp_def create_message_def simulate_bandwidth_def
  update_routing_table_def task_done_def

lemmas par_defs =
  handle_connection_par_def handle_connection_body_par_def route_data_par_def pq_put_def
  heappush_def heappop_def siftdown.simps route_loop_par.simps
  route_one_par_def is_duplicate_def forward_to_command_station_par_def
  forward_to_neighbor_par_def respond_to_vehicle_par_def create_message_def task_done_def

lemmas cc_defs =
  handle_connection_cc_def handle_connection_body_cc_def route_data_cc_def pq_put_def
  heappush_def heappop_def siftdown.simps route_loop_cc.simps
  route_one_cc_def is_duplicate_def forward_to_command_station_cc_def
  forward_to_neighbor_cc_def respond_to_vehicle_cc_def create_message_def
  simulate_bandwidth_def simulate_packet_loss_def

lemmas fixture_defs =
  all_ok_def all_fail_def forward_fails_def test_env_def sp_start_def par_start_def
  initial_node_def sample_data_def unknown_destination_def envelope_def prioritised_def
  vehicle_addr_def ROUTING_TABLE_sp_def ROUTING_TABLE_static_def hop_def NEIGHBORS_def
  ack_payload_def ACK_LISTEN_PORT_def COMMAND_STATION_PORT_def COMMAND_STATION_IP_def
  BANDWIDTH_LIMIT_def ISL_DELAY_def

subsection \<open>Retrying a forward\<close>

lemma forward_attempts_sp_result:
  "forward_attempts_sp E d i p k s =
     (Inr (),
      s\<lparr>trace := trace s
            @ concat (replicate (leading_failures E p (n_sends s) k)
                        (attempt_sp E d i p False @ [Sleep (1 / 2)]))
            @ (if leading_failures E p (n_sends s) k < k then attempt_sp E d i p True else []),
        n_sends := n_sends s + min (Suc (leading_failures E p (n_sends s) k)) k,
        total_packets_forwarded := total_packets_forwarded s
            + (if leading_failures E p (n_sends s) k < k then 1 else 0),
        total_packets_dropped := total_packets_dropped s
            + (if leading_failures E p (n_sends s) k < k then 0 else 1)\<rparr>)"
proof (induction k arbitrary: s)
  case 0
  show ?case by simp
next
  case (Suc k)
  show ?case
  proof (cases "port_error p = None \<and> transport_ok E (n_sends s)")
    case True
    then show ?thesis
      by (simp add: prog_defs simulate_bandwidth_def attempt_sp_def)
  next
    case False
    then show ?thesis
      by (auto simp: Suc prog_defs simulate_bandwidth_def attempt_sp_def split: option.splits)
  qed
qed


lemma forward_attempts_sc_result:
  "forward_attempts_sc E d k s =
     (Inr (),
      s\<lparr>trace := trace s
            @ concat (replicate (leading_failures E (JInt COMMAND_STATION_PORT) (n_sends s) k)
                        (attempt_sc E d False @ [Sleep (1 / 2)]))
            @ (if leading_failures E (JInt COMMAND_STATION_PORT) (n_sends s) k < k
               then attempt_sc E d True else []),
        n_sends := n_sends s + min (Suc (leading_failures E (JInt COMMAND_STATION_PORT) (n_sends s) k)) k,
        total_packets_forwarded := total_packets_forwarded s
            + (if leading_failures E (JInt COMMAND_STATION_PORT) (n_sends s) k < k then 1 else 0),
        total_packets_dropped := total_packets_dropped s
            + (if leading_failures E (JInt COMMAND_STATION_PORT) (n_sends s) k < k then 0 else 1)\<rparr>)"
proof (induction k arbitrary: s)
  case 0
  show ?case by simp
next
  case (Suc k)
  show ?case
  proof (cases "transport_ok E (n_sends s)")
    case True
    then show ?thesis
      by (simp add: prog_defs simulate_bandwidth_def attempt_sc_def COMMAND_STATION_PORT_def)
  next
    case False
    then show ?thesis
      by (simp add: Suc prog_defs simulate_bandwidth_def attempt_sc_def COMMAND_STATION_PORT_def)
  qed
qed

lemma retry_sleeps_failed_sp:
  "retry_sleeps (concat (replicate m (attempt_sp E d i p False @ [Sleep h])) @ rest) =
     replicate m h @ retry_sleeps rest"
  by (induction m) (simp_all add: attempt_sp_def)

lemma retry_sleeps_failed_sc:
  "retry_sleeps (concat (replicate m (attempt_sc E d False @ [Sleep h])) @ rest) =
     replicate m h @ retry_sleeps rest"
  by (induction m) (simp_all add: attempt_sc_def)

lemma retry_sleeps_last_sp: "retry_sleeps (attempt_sp E d i p True) = []"
  by (simp add: attempt_sp_def)

lemma retry_sleeps_last_sc: "retry_sleeps (attempt_sc E d True) = []"
  by (simp add: attempt_sc_def)

text \<open>
  C7, as the code has it. The trace of one call of \<^verbatim>\<open>forward_to_neighbor\<close> (short-path
  relay) and of \<^verbatim>\<open>forward_to_command_station\<close> (scalable relay) is: for each failed
  attempt the attempt followed by a sleep of 0.5 seconds, then the successful attempt if
  there is one within \<^verbatim>\<open>MAX_RETRIES\<close>. The sleep after a failed attempt is always 0.5
  seconds: it neither grows with the attempt number nor varies.
\<close>

theorem retry_wait_is_constant:
  "trace (snd (forward_to_neighbor_sp E d i p s)) =
      trace s
      @ concat (replicate (leading_failures E p (n_sends s) MAX_RETRIES)
                  (attempt_sp E d i p False @ [Sleep (1 / 2)]))
      @ (if leading_failures E p (n_sends s) MAX_RETRIES < MAX_RETRIES
         then attempt_sp E d i p True else [])
   \<and> retry_sleeps (drop (length (trace s)) (trace (snd (forward_to_neighbor_sp E d i p s)))) =
      replicate (leading_failures E p (n_sends s) MAX_RETRIES) (1 / 2)
   \<and> trace (snd (forward_to_command_station_sc E d s)) =
      trace s
      @ concat (replicate (leading_failures E (JInt COMMAND_STATION_PORT) (n_sends s) MAX_RETRIES)
                  (attempt_sc E d False @ [Sleep (1 / 2)]))
      @ (if leading_failures E (JInt COMMAND_STATION_PORT) (n_sends s) MAX_RETRIES < MAX_RETRIES
         then attempt_sc E d True else [])
   \<and> retry_sleeps (drop (length (trace s)) (trace (snd (forward_to_command_station_sc E d s)))) =
      replicate (leading_failures E (JInt COMMAND_STATION_PORT) (n_sends s) MAX_RETRIES) (1 / 2)"
proof -
  have a: "retry_sleeps (concat (replicate m (attempt_sp E d i p False @ [Sleep h]))
             @ (if c then attempt_sp E d i p True else [])) = replicate m h" for m h c
    using retry_sleeps_failed_sp[of m E d i p h "if c then attempt_sp E d i p True else []"]
    by (simp add: retry_sleeps_last_sp)
  have b: "retry_sleeps (concat (replicate m (attempt_sc E d False @ [Sleep h]))
             @ (if c then attempt_sc E d True else [])) = replicate m h" for m h c
    using retry_sleeps_failed_sc[of m E d h "if c then attempt_sc E d True else []"]
    by (simp add: retry_sleeps_last_sc)
  show ?thesis
    unfolding forward_to_neighbor_sp_def forward_to_command_station_sc_def
      forward_attempts_sp_result forward_attempts_sc_result
    using a b by simp
qed

text \<open>
  C7, as the claim states it, fails: when all three attempts fail the three retry sleeps are
  0.5, 0.5, 0.5 seconds and not 0.5, 1, 2; the time slept between consecutive \<^verbatim>\<open>sendto\<close>
  calls is 0.72 seconds both times.
\<close>

theorem backoff_counterexample:
  "trace (snd (forward_to_neighbor_sp all_fail sample_data COMMAND_STATION_IP
                 (JInt COMMAND_STATION_PORT) sp_start)) =
     [Sleep (1 / 50), Sleep (1 / 5),
      SendTo sample_data COMMAND_STATION_IP (JInt COMMAND_STATION_PORT) False, Sleep (1 / 2),
      Sleep (1 / 50), Sleep (1 / 5),
      SendTo sample_data COMMAND_STATION_IP (JInt COMMAND_STATION_PORT) False, Sleep (1 / 2),
      Sleep (1 / 50), Sleep (1 / 5),
      SendTo sample_data COMMAND_STATION_IP (JInt COMMAND_STATION_PORT) False, Sleep (1 / 2)]
   \<and> retry_sleeps (trace (snd (forward_to_neighbor_sp all_fail sample_data COMMAND_STATION_IP
                 (JInt COMMAND_STATION_PORT) sp_start))) = [1 / 2, 1 / 2, 1 / 2]
   \<and> retry_sleeps (trace (snd (forward_to_neighbor_sp all_fail sample_data COMMAND_STATION_IP
                 (JInt COMMAND_STATION_PORT) sp_start))) \<noteq> [1 / 2 * 2 ^ 0, 1 / 2 * 2 ^ 1, 1 / 2 * 2 ^ 2]
   \<and> waits_between None (trace (snd (forward_to_neighbor_sp all_fail sample_data COMMAND_STATION_IP
                 (JInt COMMAND_STATION_PORT) sp_start))) = [18 / 25, 18 / 25]"
  by (simp add: forward_to_neighbor_sp_def MAX_RETRIES_def numeral_3_eq_3 prog_defs
        simulate_bandwidth_def all_fail_def test_env_def sp_start_def initial_node_def
        BANDWIDTH_LIMIT_def ISL_DELAY_def COMMAND_STATION_PORT_def)

lemma leading_failures_all:
  "port_error p \<noteq> None \<or> (\<forall>j<k. \<not> transport_ok E (n + j)) \<Longrightarrow> leading_failures E p n k = k"
proof (induction k arbitrary: n)
  case 0
  show ?case by simp
next
  case (Suc k)
  have now: "\<not> (port_error p = None \<and> transport_ok E n)"
    using Suc.prems by auto
  have "port_error p \<noteq> None \<or> (\<forall>j<k. \<not> transport_ok E (Suc n + j))"
    using Suc.prems by auto
  then have "leading_failures E p (Suc n) k = k"
    by (rule Suc.IH)
  with now show ?case by simp
qed

lemma get_next_hop_table:
  "ROUTING_TABLE s' = ROUTING_TABLE s \<Longrightarrow> get_next_hop d s' = (fst (get_next_hop d s), s')"
  by (simp add: get_next_hop_def split: option.splits)

lemma send_ack_sp_result:
  "send_ack_sp E addr src s =
     (if transport_ok E (n_sends s)
      then (Inr (),
            s\<lparr>n_clock := n_clock s + 1,
              trace := trace s @ [SendTo (ack_to E (n_clock s) src) (fst addr) (JInt ACK_LISTEN_PORT) True],
              n_sends := n_sends s + 1,
              total_acks_sent := total_acks_sent s + 1\<rparr>)
      else (Inl OSError,
            s\<lparr>n_clock := n_clock s + 1,
              trace := trace s @ [SendTo (ack_to E (n_clock s) src) (fst addr) (JInt ACK_LISTEN_PORT) False],
              n_sends := n_sends s + 1\<rparr>))"
  by (simp add: send_ack_sp_def create_message_def ack_to_def prog_defs ACK_LISTEN_PORT_def)

lemma forward_message_sp_exhausted:
  assumes "getitem message ''destination'' = Inr dst"
      and "fst (get_next_hop dst s) = Inr (Some entry)"
      and "ip entry = Some i" and "port entry = Some p"
      and "port_error p \<noteq> None \<or> (\<forall>j<MAX_RETRIES. \<not> transport_ok E (n_sends s + j))"
  shows "forward_message_sp E message s =
           (Inr (),
            s\<lparr>trace := trace s
                  @ concat (replicate MAX_RETRIES (attempt_sp E message i p False @ [Sleep (1 / 2)])),
              n_sends := n_sends s + MAX_RETRIES,
              total_packets_dropped := total_packets_dropped s + 1\<rparr>)"
proof -
  have g: "get_next_hop dst s = (Inr (Some entry), s)"
    using assms(2) get_next_hop_table[of s s dst] by simp
  have m: "leading_failures E p (n_sends s) MAX_RETRIES = MAX_RETRIES"
    using assms(5) by (rule leading_failures_all)
  show ?thesis
    using assms(1,3,4) g
    by (simp add: forward_message_sp_def forward_to_neighbor_sp_def forward_attempts_sp_result m
          prog_defs)
qed


lemma is_duplicate_sp_fresh:
  assumes "hashable mid"
      and "\<And>t. recent_messages s mid = Some t \<Longrightarrow> 10 \<le> clock E (n_clock s) - t"
  shows "is_duplicate_sp E mid s =
           (Inr False,
            s\<lparr>n_clock := n_clock s + 1,
              recent_messages := (recent_messages s)(mid \<mapsto> clock E (n_clock s))\<rparr>)"
proof (cases "recent_messages s mid")
  case None
  then show ?thesis
    using assms(1) by (simp add: is_duplicate_sp_def prog_defs)
next
  case (Some t)
  then have "\<not> clock E (n_clock s) - t < 10" using assms(2)[of t] by simp
  then show ?thesis
    using assms(1) Some by (simp add: is_duplicate_sp_def prog_defs restrict_then_update)
qed

text \<open>
  C3, as the code has it. A fresh data envelope whose destination resolves to an endpoint
  and whose \<^verbatim>\<open>MAX_RETRIES\<close> forwarding sends all fail (the learned port is unusable, or
  the transport refuses each of them): the trace
  shows exactly \<^verbatim>\<open>MAX_RETRIES\<close> failed forwarding attempts, the dropped counter goes up by
  one, the forwarded counter stays, and then one acknowledgement is handed to \<^verbatim>\<open>sendto\<close>;
  it is counted as sent exactly when that call succeeds.
\<close>

theorem exhausted_retries_still_ack:
  assumes mid: "getitem message ''id'' = Inr mid" "hashable mid"
      and fresh: "\<And>t. recent_messages s mid = Some t \<Longrightarrow> 10 \<le> clock E (n_clock s + 1) - t"
      and ty: "getitem message ''type'' = Inr (JStr ''data'')"
      and dst: "getitem message ''destination'' = Inr dst"
      and hop: "fst (get_next_hop dst s) = Inr (Some entry)" "ip entry = Some i" "port entry = Some p"
      and src: "getitem message ''source'' = Inr src"
      and fail: "port_error p \<noteq> None \<or> (\<forall>j<MAX_RETRIES. \<not> transport_ok E (n_sends s + j))"
  shows "trace (snd (handle_connection_sp E addr message s)) =
           trace s
           @ concat (replicate MAX_RETRIES (attempt_sp E message i p False @ [Sleep (1 / 2)]))
           @ [SendTo (ack_to E (n_clock s + 2) src) (fst addr) (JInt ACK_LISTEN_PORT)
                (transport_ok E (n_sends s + MAX_RETRIES))]
       \<and> total_packets_dropped (snd (handle_connection_sp E addr message s)) =
           total_packets_dropped s + 1
       \<and> total_packets_forwarded (snd (handle_connection_sp E addr message s)) =
           total_packets_forwarded s
       \<and> total_acks_sent (snd (handle_connection_sp E addr message s)) =
           total_acks_sent s + (if transport_ok E (n_sends s + MAX_RETRIES) then 1 else 0)"
proof -
  define s1 where "s1 = s\<lparr>n_clock := n_clock s + 2,
      recent_messages := (recent_messages s)(mid \<mapsto> clock E (n_clock s + 1))\<rparr>"
  have s1: "trace s1 = trace s" "n_sends s1 = n_sends s" "n_clock s1 = n_clock s + 2"
    "total_packets_dropped s1 = total_packets_dropped s"
    "total_packets_forwarded s1 = total_packets_forwarded s"
    "total_acks_sent s1 = total_acks_sent s" "ROUTING_TABLE s1 = ROUTING_TABLE s"
    by (simp_all add: s1_def)
  have d: "is_duplicate_sp E mid (s\<lparr>n_clock := Suc (n_clock s)\<rparr>) = (Inr False, s1)"
    using is_duplicate_sp_fresh[of mid "s\<lparr>n_clock := n_clock s + 1\<rparr>" E] mid(2) fresh
    by (simp add: s1_def)
  have h1: "fst (get_next_hop dst s1) = Inr (Some entry)"
    using get_next_hop_table[of s1 s dst] hop(1) s1(7) by simp
  have f: "forward_message_sp E message s1 =
             (Inr (),
              s1\<lparr>trace := trace s1
                    @ concat (replicate MAX_RETRIES (attempt_sp E message i p False @ [Sleep (1 / 2)])),
                 n_sends := n_sends s1 + MAX_RETRIES,
                 total_packets_dropped := total_packets_dropped s1 + 1\<rparr>)"
    using fail by (intro forward_message_sp_exhausted[OF dst h1 hop(2,3)]) (simp add: s1)
  show ?thesis
    using mid(1) ty src
    by (simp add: handle_connection_sp_def handle_connection_body_sp_def d f send_ack_sp_result
          bindP_def tryP_def retP_def liftP_def time_time_def s1)
qed

theorem exhausted_retries_still_ack_witness:
  "getitem sample_data ''id'' = Inr (JStr ''vehicle_1-1'')
   \<and> hashable (JStr ''vehicle_1-1'')
   \<and> recent_messages sp_start (JStr ''vehicle_1-1'') = None
   \<and> getitem sample_data ''type'' = Inr (JStr ''data'')
   \<and> getitem sample_data ''destination'' = Inr (JStr ''satellite'')
   \<and> fst (get_next_hop (JStr ''satellite'') sp_start) = Inr (Some forwarded_to_sink)
   \<and> getitem sample_data ''source'' = Inr (JStr ''vehicle_1'')
   \<and> \<not> transport_ok forward_fails 0 \<and> \<not> transport_ok forward_fails 1
   \<and> \<not> transport_ok forward_fails 2 \<and> transport_ok forward_fails 3
   \<and> total_packets_dropped (snd (handle_connection_sp forward_fails vehicle_addr sample_data sp_start)) = 1
   \<and> total_packets_forwarded (snd (handle_connection_sp forward_fails vehicle_addr sample_data sp_start)) = 0
   \<and> total_acks_sent (snd (handle_connection_sp forward_fails vehicle_addr sample_data sp_start)) = 1"
proof -
  have a: "getitem sample_data ''id'' = Inr (JStr ''vehicle_1-1'')"
    by (simp add: sample_data_def envelope_def)
  have b: "hashable (JStr ''vehicle_1-1'')" by simp
  have c: "recent_messages sp_start (JStr ''vehicle_1-1'') = None"
    by (simp add: sp_start_def initial_node_def)
  have c': "\<And>t. recent_messages sp_start (JStr ''vehicle_1-1'') = Some t \<Longrightarrow>
              10 \<le> clock forward_fails (n_clock sp_start + 1) - t"
    by (simp add: c)
  have d: "getitem sample_data ''type'' = Inr (JStr ''data'')"
    by (simp add: sample_data_def envelope_def)
  have e: "getitem sample_data ''destination'' = Inr (JStr ''satellite'')"
    by (simp add: sample_data_def envelope_def)
  have f: "fst (get_next_hop (JStr ''satellite'') sp_start) = Inr (Some forwarded_to_sink)"
    by (simp add: get_next_hop_def sp_start_def initial_node_def ROUTING_TABLE_sp_def hop_def
          forwarded_to_sink_def)
  have g: "ip forwarded_to_sink = Some COMMAND_STATION_IP"
    "port forwarded_to_sink = Some (JInt COMMAND_STATION_PORT)"
    by (simp_all add: forwarded_to_sink_def)
  have h: "getitem sample_data ''source'' = Inr (JStr ''vehicle_1'')"
    by (simp add: sample_data_def envelope_def)
  have k: "port_error (JInt COMMAND_STATION_PORT) \<noteq> None
           \<or> (\<forall>j<MAX_RETRIES. \<not> transport_ok forward_fails (n_sends sp_start + j))"
    by (simp add: forward_fails_def test_env_def sp_start_def initial_node_def MAX_RETRIES_def)
  have l: "\<not> transport_ok forward_fails 0 \<and> \<not> transport_ok forward_fails 1
           \<and> \<not> transport_ok forward_fails 2 \<and> transport_ok forward_fails 3"
    by (simp add: forward_fails_def test_env_def)
  show ?thesis
    using a b c d e f h l
      exhausted_retries_still_ack [OF a b c' d e f g h k, of vehicle_addr]
    by (simp add: sp_start_def initial_node_def MAX_RETRIES_def forward_fails_def test_env_def)
qed

text \<open>
  C3, as the claim states it, fails: with the three forwarding sends refused and the fourth
  send accepted, the dropped counter is 1 and one acknowledgement leaves the relay.
\<close>

theorem zero_acks_counterexample:
  "map delivered (filter (has_type ''data'')
       (trace (snd (handle_connection_sp forward_fails vehicle_addr sample_data sp_start)))) =
     [False, False, False]
   \<and> total_packets_dropped (snd (handle_connection_sp forward_fails vehicle_addr sample_data sp_start)) = 1
   \<and> length (acks_sent
       (trace (snd (handle_connection_sp forward_fails vehicle_addr sample_data sp_start)))) = 1
   \<and> total_acks_sent (snd (handle_connection_sp forward_fails vehicle_addr sample_data sp_start)) = 1"
  by (simp add: handle_connection_sp_def handle_connection_body_sp_def is_duplicate_sp_def
        forward_message_sp_def get_next_hop_def forward_to_neighbor_sp_def MAX_RETRIES_def
        numeral_3_eq_3 send_ack_sp_def create_message_def simulate_bandwidth_def prog_defs
        forward_fails_def test_env_def sp_start_def initial_node_def sample_data_def envelope_def
        vehicle_addr_def ROUTING_TABLE_sp_def hop_def acks_sent_def ack_payload_def
        ACK_LISTEN_PORT_def COMMAND_STATION_PORT_def)

subsection \<open>Duplicates\<close>

text \<open>
  C1 on the parallel relay. The same data envelope received twice within the window: the
  second copy is not forwarded, but \<^verbatim>\<open>handle_connection\<close> answers it too, so one data
  envelope and two acknowledgements leave the relay.
\<close>

theorem duplicate_acknowledged_par:
  "fst (connection_worker_par all_ok sent_twice par_start) = Inr ()
   \<and> length (data_forwarded (trace (snd (connection_worker_par all_ok sent_twice par_start)))) = 1
   \<and> length (acks_sent (trace (snd (connection_worker_par all_ok sent_twice par_start)))) = 2"
  by (simp add: sent_twice_def par_defs prog_defs fixture_defs data_forwarded_def acks_sent_def)

text \<open>The short-path relay returns before forwarding and acknowledging a duplicate.\<close>

lemma duplicate_suppressed_sp:
  "length (data_forwarded (trace (snd (connection_worker_sp all_ok sent_twice sp_start)))) = 1
   \<and> length (acks_sent (trace (snd (connection_worker_sp all_ok sent_twice sp_start)))) = 1
   \<and> duplicate_messages (snd (connection_worker_sp all_ok sent_twice sp_start)) = 1"
  by (simp add: sent_twice_def sp_defs prog_defs fixture_defs data_forwarded_def acks_sent_def)

subsection \<open>Destinations without a route\<close>

text \<open>
  C2 on the short-path relay. A data envelope for \<^verbatim>\<open>"unknown_xyz"\<close>: \<^verbatim>\<open>get_next_hop\<close>
  finds nothing, nothing is offered to the transport for it, and it is counted as dropped.
\<close>

theorem unknown_destination_dropped_sp:
  "fst (handle_connection_sp all_ok vehicle_addr unknown_destination sp_start) = Inr ()
   \<and> filter (has_type ''data'')
        (trace (snd (handle_connection_sp all_ok vehicle_addr unknown_destination sp_start))) = []
   \<and> total_packets_forwarded
        (snd (handle_connection_sp all_ok vehicle_addr unknown_destination sp_start)) = 0
   \<and> total_packets_dropped
        (snd (handle_connection_sp all_ok vehicle_addr unknown_destination sp_start)) = 1"
  by (simp add: sp_defs prog_defs fixture_defs)

text \<open>The channel-characteristics relay sends the same envelope to the command station.\<close>

lemma unknown_destination_fails_open_cc:
  "data_forwarded
     (trace (snd (handle_connection_cc all_ok vehicle_addr unknown_destination par_start))) =
   [SendTo unknown_destination COMMAND_STATION_IP (JInt COMMAND_STATION_PORT) True]"
  by (simp add: cc_defs prog_defs fixture_defs data_forwarded_def)

lemma forward_message_sp_no_route:
  assumes "getitem message ''destination'' = Inr dst" and "hashable dst"
      and "ROUTING_TABLE s dst = None"
  shows "forward_message_sp E message s =
           (Inr (), s\<lparr>total_packets_dropped := total_packets_dropped s + 1\<rparr>)"
  using assms by (simp add: forward_message_sp_def get_next_hop_def prog_defs)

subsection \<open>Order of processing\<close>

text \<open>
  C5 on the parallel relay. One worker, envelopes of priority 3, 1, 2 queued in that order:
  they are forwarded in arrival order 3, 1, 2.
\<close>

theorem arrival_order_not_priority_par:
  "map sent_id (data_forwarded (trace (snd (connection_worker_par all_ok three_priorities par_start))))
     = [Inr (JStr ''p3''), Inr (JStr ''p1''), Inr (JStr ''p2'')]"
  by (simp add: three_priorities_def par_defs prog_defs fixture_defs data_forwarded_def)

text \<open>
  The reason: \<^verbatim>\<open>route_data\<close> drains \<^verbatim>\<open>message_queue\<close> right after its own
  \<^verbatim>\<open>put\<close>, so with one worker the queue holds one entry at a time and the priority is
  never compared with anything.
\<close>

lemma route_one_par_queue:
  "message_queue (snd (route_one_par E neighbors msg s)) = message_queue s"
proof -
  have a: "keeps message_queue (is_duplicate E m)" for m
    by (simp add: keeps_def is_duplicate_def prog_defs split: option.splits)
  have b: "keeps message_queue (sendto E d i p)" for d i p
    by (simp add: keeps_def sendto_def Let_def)
  have c: "keeps message_queue (sleep d)" for d
    by (simp add: keeps_def sleep_def)
  have d: "keeps message_queue (forward_to_command_station_par E x)" for x
    unfolding forward_to_command_station_par_def by (intro keeps_intros b)
  have e: "keeps message_queue (forward_to_neighbor_par E x nb)" for x nb
    unfolding forward_to_neighbor_par_def by (intro keeps_intros b c)
  have f: "keeps message_queue (\<lambda>s.
     if \<not> hashable destination then (Inl TypeError, s)
     else (case ROUTING_TABLE s destination of
             Some entry \<Rightarrow>
               (case next_hop entry of
                  None \<Rightarrow> (Inl KeyError, s)
                | Some nh \<Rightarrow>
                    if nh = ''command_station''
                    then forward_to_command_station_par E msg s
                    else (case find (\<lambda>n. nid n = nh) neighbors of
                            Some nb \<Rightarrow> forward_to_neighbor_par E msg nb s
                          | None \<Rightarrow> (Inl ValueError, s)))
           | None \<Rightarrow> (Inl KeyError, s)))" for destination
    using keepsD[OF d] keepsD[OF e] by (simp add: keeps_def split: option.splits)
  have "keeps message_queue (route_one_par E neighbors msg)"
    unfolding route_one_par_def by (intro keeps_intros a f)
  then show ?thesis by (simp add: keeps_def)
qed

lemma route_data_par_ignores_priority:
  assumes "message_queue s = []" and "get_default message ''priority'' (JInt 1) = Inr pr"
  shows "route_data_par E message neighbors s = route_one_par E neighbors message s"
    and "message_queue (snd (route_data_par E message neighbors s)) = []"
proof -
  have s: "s\<lparr>message_queue := []\<rparr> = s" using assms(1) by simp
  show r: "route_data_par E message neighbors s = route_one_par E neighbors message s"
    using assms
    by (cases "route_one_par E neighbors message s"; cases "fst (route_one_par E neighbors message s)")
       (simp_all add: route_data_par_def pq_put_def heappush_def heappop_def siftdown.simps
          route_loop_par.simps prog_defs s)
  show "message_queue (snd (route_data_par E message neighbors s)) = []"
    using route_one_par_queue[of E neighbors message s] assms(1) by (simp add: r)
qed

subsection \<open>The priority queue\<close>

lemma siftdown_length: "length (snd (siftdown h a b)) = length h"
  by (induction h a b rule: siftdown.induct)
     (subst siftdown.simps, auto split: sum.splits bool.splits)

lemma siftup_loop_length: "length (fst (snd (siftup_loop h a b))) = length h"
  by (induction h a b rule: siftup_loop.induct)
     (subst siftup_loop.simps, auto split: sum.splits bool.splits)

lemma siftup_length: "length (snd (siftup h a)) = length h"
  using siftup_loop_length[of h "length h" a]
  by (auto simp: siftup_def siftdown_length split: prod.splits option.splits)

lemma heappush_length: "length (snd (heappush h x)) = Suc (length h)"
  by (simp add: heappush_def siftdown_length)

lemma heappop_length: "length (snd (heappop h)) = length h - 1"
proof (cases "h = [] \<or> butlast h = []")
  case True
  have "butlast h = [] \<Longrightarrow> length h \<le> 1"
    by (cases h rule: rev_cases) simp_all
  with True show ?thesis
    by (auto simp: heappop_def)
next
  case False
  then show ?thesis
    using siftup_length[of "(butlast h)[0 := last h]" 0]
    by (cases "siftup ((butlast h)[0 := last h]) 0"; cases "fst (siftup ((butlast h)[0 := last h]) 0)")
       (simp_all add: heappop_def)
qed

text \<open>
  When \<^verbatim>\<open>route_data\<close>'s loop is started on the queue of the state and returns, the queue
  is empty: the list handed from round to round is the queue the code tests.
\<close>

lemma route_loop_par_drains:
  "message_queue s = q \<Longrightarrow> fst (route_loop_par E neighbors q s) = Inr () \<Longrightarrow>
     message_queue (snd (route_loop_par E neighbors q s)) = []"
proof (induction E neighbors q s rule: route_loop_par.induct)
  case (1 E neighbors q s)
  show ?case
  proof (cases "q = []")
    case True
    with "1.prems"(1) show ?thesis by (subst route_loop_par.simps) simp
  next
    case False
    obtain r q' where pop: "heappop q = (r, q')" by (cases "heappop q")
    show ?thesis
    proof (cases r)
      case (Inl e)
      with False pop "1.prems"(2) show ?thesis
        by (subst (asm) route_loop_par.simps) simp
    next
      case (Inr item)
      obtain r1 s1 where one:
        "route_one_par E neighbors (snd item) (s\<lparr>message_queue := q'\<rparr>) = (r1, s1)"
        by (cases "route_one_par E neighbors (snd item) (s\<lparr>message_queue := q'\<rparr>)")
      have q1: "message_queue s1 = q'"
        using route_one_par_queue[of E neighbors "snd item" "s\<lparr>message_queue := q'\<rparr>"] one
        by simp
      show ?thesis
      proof (cases r1)
        case (Inl e)
        with False pop Inr one "1.prems"(2) show ?thesis
          by (subst (asm) route_loop_par.simps) simp
      next
        case inr: (Inr u)
        have step: "route_loop_par E neighbors q s = route_loop_par E neighbors q' s1"
          using False pop Inr one inr by (subst route_loop_par.simps) simp
        show ?thesis
          using "1.IH"[OF False pop[symmetric] Inr one[symmetric] inr q1] "1.prems"(2)
          by (simp add: step)
      qed
    qed
  qed
qed

text \<open>
  With more than one entry the heap behaves as CPython's does: a tuple of priority 2 pushed
  under a root of priority 1 is not compared with its sibling of priority 2, so \<^verbatim>\<open>put\<close>
  returns; the following \<^verbatim>\<open>get\<close> has to order the two and raises, and the root it had
  taken out is gone. Equal priorities with different messages directly above one another
  raise in \<^verbatim>\<open>put\<close>.
\<close>

lemma heap_ties:
  "heappush [(JInt 1, JStr ''a''), (JInt 2, JObj [(''id'', JStr ''b'')])]
            (JInt 2, JObj [(''id'', JStr ''c'')]) =
     (None, [(JInt 1, JStr ''a''), (JInt 2, JObj [(''id'', JStr ''b'')]),
             (JInt 2, JObj [(''id'', JStr ''c'')])])
   \<and> heappop [(JInt 1, JStr ''a''), (JInt 2, JObj [(''id'', JStr ''b'')]),
               (JInt 2, JObj [(''id'', JStr ''c'')])] =
     (Inl TypeError, [(JInt 2, JObj [(''id'', JStr ''b'')]), (JInt 2, JObj [(''id'', JStr ''c'')])])
   \<and> heappush [(JInt 1, JObj [(''id'', JStr ''a'')])] (JInt 1, JObj [(''id'', JStr ''b'')]) =
     (Some TypeError, [(JInt 1, JObj [(''id'', JStr ''a'')]), (JInt 1, JObj [(''id'', JStr ''b'')])])"
  by (simp add: heappush_def heappop_def siftup_def siftup_loop.simps siftdown.simps
        tuple_lt_def py_eq_def py_lt_def)

end
